theory Spec2Isabelle
  imports Main "HOL-Library.Word"
begin

section \<open>JavaScript strings and values\<close>

text \<open>
  A JavaScript string is a sequence of 16-bit code units. String literals of the source
  that are plain ASCII are written with \<open>ascii\<close>; other code units are given by number.
\<close>

type_synonym jsstring = "16 word list"

definition ascii :: "string \<Rightarrow> jsstring" where
  "ascii s = map (\<lambda>c. of_nat (of_char c)) s"

text \<open>
  \<open>String.prototype.trim\<close> removes, at both ends, the code units that ECMAScript calls
  WhiteSpace or LineTerminator.
\<close>

definition isWhiteSpace :: "16 word \<Rightarrow> bool" where
  "isWhiteSpace c \<longleftrightarrow>
     c = 0x0009 \<or> c = 0x000A \<or> c = 0x000B \<or> c = 0x000C \<or> c = 0x000D \<or> c = 0x0020 \<or>
     c = 0x00A0 \<or> c = 0x1680 \<or> (0x2000 \<le> c \<and> c \<le> 0x200A) \<or> c = 0x2028 \<or>
     c = 0x2029 \<or> c = 0x202F \<or> c = 0x205F \<or> c = 0x3000 \<or> c = 0xFEFF"

definition trim :: "jsstring \<Rightarrow> jsstring" where
  "trim s = rev (dropWhile isWhiteSpace (rev (dropWhile isWhiteSpace s)))"

text \<open>\<open>Date.now().toString()\<close>: the decimal digits of a number of milliseconds.\<close>

fun toString :: "nat \<Rightarrow> jsstring" where
  "toString n =
     (if n < 10 then [of_nat (48 + n)]
      else toString (n div 10) @ [of_nat (48 + n mod 10)])"

text \<open>
  The values that \<open>JSON.parse\<close> and \<open>response.json()\<close> produce, \<open>undefined\<close> for a
  property that is absent, and \<open>JInherited k\<close> for the member \<open>k\<close> of \<open>Object.prototype\<close>
  (a function, or the prototype itself for \<open>__proto__\<close>), which a lookup in an object
  literal finds under that name. The source types the parsed reply as \<open>any\<close>, so a message
  built from it carries whatever value the reply holds.
\<close>

datatype jsval =
    JUndefined
  | JNull
  | JBool bool
  | JNumber int
  | JString jsstring
  | JArray "jsval list"
  | JObject "(jsstring \<times> jsval) list"
  | JInherited jsstring

text \<open>
  Reading a named property \<open>v.k\<close>, for the property names the source reads (none of them
  is a member of a prototype): a TypeError (\<open>None\<close>) on \<open>null\<close> and \<open>undefined\<close>, the
  stored value on an object that has the key, \<open>undefined\<close> otherwise.
\<close>

fun member :: "jsval \<Rightarrow> jsstring \<Rightarrow> jsval option" where
  "member JUndefined k = None"
| "member JNull k = None"
| "member (JObject kvs) k = Some (case map_of kvs k of None \<Rightarrow> JUndefined | Some v \<Rightarrow> v)"
| "member v k = Some JUndefined"

text \<open>Reading \<open>v[0]\<close>.\<close>

fun element0 :: "jsval \<Rightarrow> jsval option" where
  "element0 JUndefined = None"
| "element0 JNull = None"
| "element0 (JArray xs) = Some (case xs of [] \<Rightarrow> JUndefined | x # _ \<Rightarrow> x)"
| "element0 (JString s) = Some (case s of [] \<Rightarrow> JUndefined | c # _ \<Rightarrow> JString [c])"
| "element0 (JObject kvs) = Some (case map_of kvs (ascii ''0'') of None \<Rightarrow> JUndefined | Some v \<Rightarrow> v)"
| "element0 v = Some JUndefined"

section \<open>The chat component (src/components/Chat/ChatInterface.tsx)\<close>

subsection \<open>Data\<close>

datatype role = User | Assistant

record Message =
  msg_id :: jsstring
  role :: role
  content :: jsval
  translation :: jsval
  tip :: jsval

record Language =
  lang_id :: jsstring
  name :: jsstring
  code :: jsstring
  flag_emoji :: jsstring
  difficulty_level :: jsstring

text \<open>The four \<open>useState\<close> cells of the component.\<close>

record ChatState =
  messages :: "Message list"
  input :: jsstring
  loading :: bool
  conversationId :: "jsstring option"

definition initialState :: ChatState where
  "initialState = \<lparr>messages = [], input = [], loading = False, conversationId = None\<rparr>"

subsection \<open>The record store and the requests sent to it\<close>

text \<open>
  The rows of the tables \<open>conversations\<close> and \<open>messages\<close>
  (supabase/migrations, src/types/database.ts); \<open>message_count\<close> defaults to 0.
\<close>

record conversation_row =
  conv_id :: jsstring
  user_id :: jsstring
  language_code :: jsstring
  title :: jsstring
  difficulty :: jsstring
  message_count :: int
  updated_at :: jsstring

record message_row =
  conversation_id :: jsstring
  row_role :: role
  row_content :: jsval
  row_translation :: jsval

record Store =
  conversations :: "conversation_row list"
  messages_table :: "message_row list"

record conversation_insert =
  ins_user_id :: jsstring
  ins_language_code :: jsstring
  ins_title :: jsstring
  ins_difficulty :: jsstring

type_synonym history_item = "role \<times> jsval"

record ai_chat_request =
  req_messages :: "history_item list"
  languageCode :: jsstring
  languageName :: jsstring
  req_difficulty :: jsstring

text \<open>Every request the component issues, in the order it issues them.\<close>

datatype call =
    CreateConversation conversation_insert
  | InsertMessage message_row
  | FetchAiChat ai_chat_request
  | UpdateConversation jsstring int jsstring

text \<open>
  What an awaited store request does: it resolves with no error, it resolves with an
  error object (which the component never reads), or the awaited promise rejects.
  Only an acknowledged request changes the store.
\<close>

datatype store_outcome = Ack | ErrorResult | Rejects

datatype create_outcome = Created jsstring jsstring | CreateError | CreateRejects

datatype json_outcome = JsonThrows | JsonValue jsval

datatype fetch_outcome = FetchRejects | Responded bool json_outcome

datatype completion = Returned | Threw

definition store_insert :: "store_outcome \<Rightarrow> message_row \<Rightarrow> Store \<Rightarrow> Store" where
  "store_insert out row db =
     (if out = Ack then db\<lparr>messages_table := messages_table db @ [row]\<rparr> else db)"

definition store_update :: "store_outcome \<Rightarrow> jsstring \<Rightarrow> int \<Rightarrow> jsstring \<Rightarrow> Store \<Rightarrow> Store" where
  "store_update out cid n ts db =
     (if out = Ack
      then db\<lparr>conversations :=
             map (\<lambda>r. if conv_id r = cid then r\<lparr>message_count := n, updated_at := ts\<rparr> else r)
               (conversations db)\<rparr>
      else db)"

definition stored_message_count :: "Store \<Rightarrow> jsstring \<Rightarrow> int option" where
  "stored_message_count db cid =
     map_option message_count (find (\<lambda>r. conv_id r = cid) (conversations db))"

subsection \<open>initializeConversation\<close>

text \<open>
  The names under which a lookup in an object literal finds a member of
  \<open>Object.prototype\<close> instead of \<open>undefined\<close>.
\<close>

definition object_prototype_members :: "jsstring list" where
  "object_prototype_members =
     [ascii ''constructor'', ascii ''hasOwnProperty'', ascii ''isPrototypeOf'',
      ascii ''propertyIsEnumerable'', ascii ''toLocaleString'', ascii ''toString'',
      ascii ''valueOf'', ascii ''__proto__'', ascii ''__defineGetter__'',
      ascii ''__defineSetter__'', ascii ''__lookupGetter__'', ascii ''__lookupSetter__'']"

text \<open>
  \<open>welcomes[languageName] || default\<close>: the entry of the table for one of its eight
  names; the inherited member, which is truthy, for the name of a member of
  \<open>Object.prototype\<close>; the default for every other name.
\<close>

definition getWelcomeMessage :: "jsstring \<Rightarrow> jsval" where
  "getWelcomeMessage lname =
     (case map_of
        [(ascii ''Spanish'',
            [0x00A1] @ ascii ''Hola! Soy tu tutor de espa'' @ [0x00F1] @ ascii ''ol. '' @ [0x00A1]
              @ ascii ''Vamos a practicar juntos!''),
         (ascii ''French'',
            ascii ''Bonjour! Je suis votre tuteur de fran'' @ [0x00E7]
              @ ascii ''ais. Pratiquons ensemble!''),
         (ascii ''German'',
            ascii ''Hallo! Ich bin dein Deutsch-Tutor. Lass uns zusammen '' @ [0x00FC]
              @ ascii ''ben!''),
         (ascii ''Hindi'',
            [0x0928, 0x092E, 0x0938, 0x094D, 0x0924, 0x0947] @ ascii ''! ''
              @ [0x092E, 0x0948, 0x0902] @ ascii '' '' @ [0x0906, 0x092A, 0x0915, 0x093E]
              @ ascii '' '' @ [0x0939, 0x093F, 0x0902, 0x0926, 0x0940] @ ascii '' ''
              @ [0x0936, 0x093F, 0x0915, 0x094D, 0x0937, 0x0915] @ ascii '' ''
              @ [0x0939, 0x0942, 0x0902, 0x0964] @ ascii '' '' @ [0x091A, 0x0932, 0x093F, 0x090F]
              @ ascii '' '' @ [0x0938, 0x093E, 0x0925] @ ascii '' '' @ [0x092E, 0x0947, 0x0902]
              @ ascii '' '' @ [0x0905, 0x092D, 0x094D, 0x092F, 0x093E, 0x0938] @ ascii '' ''
              @ [0x0915, 0x0930, 0x0924, 0x0947] @ ascii '' '' @ [0x0939, 0x0948, 0x0902]
              @ ascii ''!''),
         (ascii ''Mandarin'',
            [0x4F60, 0x597D, 0xFF01, 0x6211, 0x662F, 0x4F60, 0x7684, 0x4E2D, 0x6587, 0x8001,
             0x5E08, 0x3002, 0x8BA9, 0x6211, 0x4EEC, 0x4E00, 0x8D77, 0x7EC3, 0x4E60, 0x5427,
             0xFF01]),
         (ascii ''Japanese'',
            [0x3053, 0x3093, 0x306B, 0x3061, 0x306F, 0xFF01, 0x79C1, 0x306F, 0x3042, 0x306A,
             0x305F, 0x306E, 0x65E5, 0x672C, 0x8A9E, 0x306E, 0x5148, 0x751F, 0x3067, 0x3059,
             0x3002, 0x4E00, 0x7DD2, 0x306B, 0x7DF4, 0x7FD2, 0x3057, 0x307E, 0x3057, 0x3087,
             0x3046, 0xFF01]),
         (ascii ''Italian'',
            ascii ''Ciao! Sono il tuo tutor di italiano. Pratichiamo insieme!''),
         (ascii ''Portuguese'',
            ascii ''Ol'' @ [0x00E1] @ ascii ''! Sou seu tutor de portugu'' @ [0x00EA]
              @ ascii ''s. Vamos praticar juntos!'')]
        lname of
        Some w \<Rightarrow> JString w
      | None \<Rightarrow>
          if lname \<in> set object_prototype_members then JInherited lname
          else JString (ascii ''Hello! Let'' @ [0x0027] @ ascii ''s practice together!''))"

definition welcome_id :: jsstring where
  "welcome_id = ascii ''welcome''"

definition welcome_gloss :: "jsstring \<Rightarrow> jsstring" where
  "welcome_gloss lname =
     ascii ''Hello! I'' @ [0x0027] @ ascii ''m your '' @ lname
       @ ascii '' tutor. Let'' @ [0x0027] @ ascii ''s practice together!''"

definition welcomeMessage :: "Language \<Rightarrow> Message" where
  "welcomeMessage language =
     \<lparr>msg_id = welcome_id, role = Assistant,
      content = getWelcomeMessage (name language),
      translation = JString (welcome_gloss (name language)),
      tip = JUndefined\<rparr>"

text \<open>
  \<open>user\<close> is the signed-in user's id, or \<open>None\<close> when nobody is signed in. \<open>Created cid ts\<close>
  is the store answering with the new row, whose id and time stamp the store assigns.
\<close>

definition initializeConversation ::
  "jsstring option \<Rightarrow> Language \<Rightarrow> create_outcome \<Rightarrow> ChatState \<times> Store
     \<Rightarrow> (ChatState \<times> Store) \<times> call list \<times> completion" where
  "initializeConversation user language out world =
     (case user of
        None \<Rightarrow> (world, [], Returned)
      | Some uid \<Rightarrow>
          (let ins = \<lparr>ins_user_id = uid, ins_language_code = code language,
                      ins_title = name language @ ascii '' Practice'',
                      ins_difficulty = difficulty_level language\<rparr>
           in case out of
                CreateRejects \<Rightarrow> (world, [CreateConversation ins], Threw)
              | CreateError \<Rightarrow> (world, [CreateConversation ins], Returned)
              | Created cid ts \<Rightarrow>
                  ((fst world\<lparr>conversationId := Some cid, messages := [welcomeMessage language]\<rparr>,
                    snd world\<lparr>conversations := conversations (snd world) @
                       [\<lparr>conv_id = cid, user_id = uid, language_code = code language,
                         title = name language @ ascii '' Practice'',
                         difficulty = difficulty_level language,
                         message_count = 0, updated_at = ts\<rparr>]\<rparr>),
                   [CreateConversation ins], Returned)))"

subsection \<open>handleSend\<close>

text \<open>
  What one run of \<open>handleSend\<close> meets outside the component: the three readings of the
  clock behind \<open>Date.now()\<close>, the time stamp of \<open>new Date().toISOString()\<close>, and how each
  awaited request ends.
\<close>

record SendEnv =
  now_user :: nat
  user_insert :: store_outcome
  ai_fetch :: fetch_outcome
  now_assistant :: nat
  assistant_insert :: store_outcome
  now_iso :: jsstring
  conv_update :: store_outcome
  now_apology :: nat

text \<open>
  Line 89, \<open>!input.trim() || !conversationId || loading\<close>: an empty string is falsy, and
  so are \<open>null\<close> and the empty string for the identifier.
\<close>

definition handleSend_guard :: "ChatState \<Rightarrow> bool" where
  "handleSend_guard st \<longleftrightarrow>
     trim (input st) = [] \<or> conversationId st = None \<or> conversationId st = Some [] \<or> loading st"

definition userMessage_of :: "nat \<Rightarrow> ChatState \<Rightarrow> Message" where
  "userMessage_of now st =
     \<lparr>msg_id = toString now, role = User, content = JString (trim (input st)),
      translation = JUndefined, tip = JUndefined\<rparr>"

text \<open>
  Lines 91 to 99: everything \<open>handleSend\<close> does to the component before its first
  \<open>await\<close>, when the handler of the latest render is called. No outcome of any request
  is an argument.
\<close>

definition handleSend_sync :: "nat \<Rightarrow> ChatState \<Rightarrow> ChatState" where
  "handleSend_sync now st =
     st\<lparr>messages := messages st @ [userMessage_of now st], input := [], loading := True\<rparr>"

definition user_row :: "jsstring \<Rightarrow> Message \<Rightarrow> message_row" where
  "user_row cid userMessage =
     \<lparr>conversation_id = cid, row_role = User, row_content = content userMessage,
      row_translation = JUndefined\<rparr>"

definition assistant_row :: "jsstring \<Rightarrow> Message \<Rightarrow> message_row" where
  "assistant_row cid assistantMessage =
     \<lparr>conversation_id = cid, row_role = Assistant, row_content = content assistantMessage,
      row_translation = translation assistantMessage\<rparr>"

definition conversationHistory :: "Message list \<Rightarrow> history_item list" where
  "conversationHistory ms =
     map (\<lambda>m. (role m, content m)) (filter (\<lambda>m. msg_id m \<noteq> welcome_id) ms)"

definition ai_request :: "Language \<Rightarrow> Message list \<Rightarrow> Message \<Rightarrow> ai_chat_request" where
  "ai_request language ms userMessage =
     \<lparr>req_messages = conversationHistory ms @ [(User, content userMessage)],
      languageCode = code language,
      languageName = name language,
      req_difficulty = difficulty_level language\<rparr>"

text \<open>
  The message built from the parsed reply, lines 136 to 142. Reading a property of
  \<open>null\<close> or \<open>undefined\<close> throws, so there is a message only for another reply.
\<close>

definition assistantMessage_of :: "nat \<Rightarrow> jsval \<Rightarrow> Message option" where
  "assistantMessage_of now aiData =
     (case member aiData (ascii ''response'') of
        None \<Rightarrow> None
      | Some r \<Rightarrow>
          (case member aiData (ascii ''translation'') of
             None \<Rightarrow> None
           | Some t \<Rightarrow>
               (case member aiData (ascii ''tip'') of
                  None \<Rightarrow> None
                | Some p \<Rightarrow>
                    Some \<lparr>msg_id = toString now, role = Assistant, content = r,
                          translation = t, tip = p\<rparr>)))"

definition apology_text :: jsstring where
  "apology_text = ascii ''Sorry, I encountered an error. Please try again.''"

definition apologyMessage :: "nat \<Rightarrow> Message" where
  "apologyMessage now =
     \<lparr>msg_id = toString now, role = Assistant, content = JString apology_text,
      translation = JString apology_text, tip = JUndefined\<rparr>"

text \<open>
  The \<open>try\<close> block, lines 107 to 160. \<open>ms\<close> is the \<open>messages\<close> the handler closed over
  (the sequence before this submission); \<open>st\<close> is the component as it stands when the
  block starts. The result says whether the block threw, and gives the component, the
  store and the requests issued up to that point.
\<close>

definition try_block ::
  "Language \<Rightarrow> SendEnv \<Rightarrow> Message list \<Rightarrow> jsstring \<Rightarrow> Message \<Rightarrow> ChatState \<times> Store
     \<Rightarrow> completion \<times> (ChatState \<times> Store) \<times> call list" where
  "try_block language env ms cid userMessage world =
     (let request = FetchAiChat (ai_request language ms userMessage)
      in case ai_fetch env of
           FetchRejects \<Rightarrow> (Threw, world, [request])
         | Responded ok body \<Rightarrow>
             if \<not> ok then (Threw, world, [request])
             else (case body of
                     JsonThrows \<Rightarrow> (Threw, world, [request])
                   | JsonValue aiData \<Rightarrow>
                       (case assistantMessage_of (now_assistant env) aiData of
                          None \<Rightarrow> (Threw, world, [request])
                        | Some assistantMessage \<Rightarrow>
                            (let st2 = fst world\<lparr>messages := messages (fst world) @ [assistantMessage]\<rparr>;
                                 row = assistant_row cid assistantMessage;
                                 db2 = store_insert (assistant_insert env) row (snd world);
                                 upd = UpdateConversation cid (int (length ms) + 2) (now_iso env);
                                 db3 = store_update (conv_update env) cid (int (length ms) + 2)
                                         (now_iso env) db2
                             in if assistant_insert env = Rejects
                                then (Threw, (st2, db2), [request, InsertMessage row])
                                else if conv_update env = Rejects
                                then (Threw, (st2, db3), [request, InsertMessage row, upd])
                                else (Returned, (st2, db3), [request, InsertMessage row, upd])))))"

text \<open>
  \<open>handleSend\<close>, lines 88 to 175. The handler is a closure of one render: \<open>input\<close>,
  \<open>conversationId\<close>, \<open>loading\<close> and \<open>messages\<close> are the constants of that render
  (\<open>render\<close> below), whatever the component holds by the time the handler runs, while
  the updates \<open>setMessages (\<lambda>prev. \<dots>)\<close>, \<open>setInput\<close> and \<open>setLoading\<close> apply to the
  component as it then stands (the first component of \<open>world\<close>).

  The first insert is awaited before the \<open>try\<close> statement: when it rejects, the
  handler ends there. Otherwise the \<open>try\<close> block runs, \<open>catch\<close> appends the apology
  when the block threw, and \<open>finally\<close> clears \<open>loading\<close>. One run is one call of the
  handler taken to its end.
\<close>

definition handleSend_sync_on :: "nat \<Rightarrow> ChatState \<Rightarrow> ChatState \<Rightarrow> ChatState" where
  "handleSend_sync_on now render st =
     st\<lparr>messages := messages st @ [userMessage_of now render], input := [], loading := True\<rparr>"

definition handleSend_closure ::
  "Language \<Rightarrow> SendEnv \<Rightarrow> ChatState \<Rightarrow> ChatState \<times> Store
     \<Rightarrow> (ChatState \<times> Store) \<times> call list \<times> completion" where
  "handleSend_closure language env render world =
     (if handleSend_guard render then (world, [], Returned)
      else
        (let cid = the (conversationId render);
             userMessage = userMessage_of (now_user env) render;
             st1 = handleSend_sync_on (now_user env) render (fst world);
             row = user_row cid userMessage;
             db1 = store_insert (user_insert env) row (snd world)
         in if user_insert env = Rejects
            then ((st1, db1), [InsertMessage row], Threw)
            else
              (case try_block language env (messages render) cid userMessage (st1, db1) of
                 (Returned, (st2, db2), calls) \<Rightarrow>
                   ((st2\<lparr>loading := False\<rparr>, db2), InsertMessage row # calls, Returned)
               | (Threw, (st2, db2), calls) \<Rightarrow>
                   ((st2\<lparr>messages := messages st2 @ [apologyMessage (now_apology env)],
                         loading := False\<rparr>, db2),
                    InsertMessage row # calls, Returned))))"

text \<open>
  The handler of the latest render, called on the component that this render shows:
  the usual case, in which what the handler closed over is what the component holds.
\<close>

definition handleSend ::
  "Language \<Rightarrow> SendEnv \<Rightarrow> ChatState \<times> Store \<Rightarrow> (ChatState \<times> Store) \<times> call list \<times> completion" where
  "handleSend language env world = handleSend_closure language env (fst world) world"

text \<open>The rows of the insert requests among the requests issued.\<close>

fun inserted_rows :: "call list \<Rightarrow> message_row list" where
  "inserted_rows [] = []"
| "inserted_rows (InsertMessage row # cs) = row # inserted_rows cs"
| "inserted_rows (c # cs) = inserted_rows cs"

fun fetch_requests :: "call list \<Rightarrow> ai_chat_request list" where
  "fetch_requests [] = []"
| "fetch_requests (FetchAiChat r # cs) = r # fetch_requests cs"
| "fetch_requests (c # cs) = fetch_requests cs"

text \<open>
  The reply of a call of the inference service that succeeded: the answer is ok, its
  body is JSON, and the parsed value is not \<open>null\<close>. In every other case (the fetch
  rejects, the answer is not ok, \<open>json()\<close> throws, or reading a property of the parsed
  value throws) the call has failed for the component and there is no reply.
\<close>

fun inference_reply :: "fetch_outcome \<Rightarrow> jsval option" where
  "inference_reply (Responded True (JsonValue aiData)) =
     (if aiData = JNull \<or> aiData = JUndefined then None else Some aiData)"
| "inference_reply out = None"

section \<open>The edge function (supabase/functions/ai-chat/index.ts)\<close>

text \<open>
  The handler's answer: a status and the value that \<open>JSON.stringify\<close> serialises into
  the body (\<open>None\<close> for the empty body of the OPTIONS answer).
\<close>

record http_response =
  status :: nat
  body_json :: "jsval option"

datatype thrown = KeyNotConfigured | OpenAIApiError jsstring | RuntimeException

datatype openai_outcome =
    OpenAIFetchRejects
  | OpenAINotOk bool jsstring
  | OpenAIOk json_outcome

text \<open>
  What the handler meets: the request's method; whether reading and destructuring the
  request body throws; the configured key; whether spreading the request's \<open>messages\<close>
  into the list sent on throws (it does when they are not iterable); how the call of the
  completion service ends: the fetch rejects, the answer is not ok (with whether reading
  its text throws, and its status text), or the answer is ok (and its \<open>json()\<close> throws or
  gives a value); and the \<open>message\<close> of the exception that the runtime throws, if it
  throws one.
\<close>

record EdgeEnv =
  req_method :: jsstring
  req_json_throws :: bool
  OPENAI_API_KEY :: "jsstring option"
  messages_spread_throws :: bool
  openai :: openai_outcome
  exception_message :: jsval

text \<open>\<open>data.choices[0].message.content\<close>; \<open>None\<close> is a TypeError.\<close>

definition choice_content :: "jsval \<Rightarrow> jsval option" where
  "choice_content data =
     (case member data (ascii ''choices'') of
        None \<Rightarrow> None
      | Some choices \<Rightarrow>
          (case element0 choices of
             None \<Rightarrow> None
           | Some choice \<Rightarrow>
               (case member choice (ascii ''message'') of
                  None \<Rightarrow> None
                | Some message \<Rightarrow> member message (ascii ''content''))))"

definition fallbackResponse :: "jsval \<Rightarrow> jsval" where
  "fallbackResponse aiResponse =
     JObject [(ascii ''response'', aiResponse),
              (ascii ''translation'', JString (ascii ''Translation not available'')),
              (ascii ''tip'', JNull)]"

text \<open>
  Lines 86 to 95. \<open>JSON.parse\<close> belongs to the runtime and is a parameter: \<open>None\<close> is the
  SyntaxError it throws.
\<close>

definition parsedResponse_of :: "(jsval \<Rightarrow> jsval option) \<Rightarrow> jsval \<Rightarrow> jsval" where
  "parsedResponse_of JSON_parse aiResponse =
     (case JSON_parse aiResponse of
        Some v \<Rightarrow> v
      | None \<Rightarrow> fallbackResponse aiResponse)"

text \<open>The \<open>try\<close> block of the handler, lines 49 to 105.\<close>

definition handler_try :: "(jsval \<Rightarrow> jsval option) \<Rightarrow> EdgeEnv \<Rightarrow> thrown + jsval" where
  "handler_try JSON_parse env =
     (if req_json_throws env then Inl RuntimeException
      else (case OPENAI_API_KEY env of
              None \<Rightarrow> Inl KeyNotConfigured
            | Some k \<Rightarrow>
                if k = [] then Inl KeyNotConfigured
                else if messages_spread_throws env then Inl RuntimeException
                else (case openai env of
                        OpenAIFetchRejects \<Rightarrow> Inl RuntimeException
                      | OpenAINotOk text_throws statusText \<Rightarrow>
                          if text_throws then Inl RuntimeException
                          else Inl (OpenAIApiError statusText)
                      | OpenAIOk JsonThrows \<Rightarrow> Inl RuntimeException
                      | OpenAIOk (JsonValue data) \<Rightarrow>
                          (case choice_content data of
                             None \<Rightarrow> Inl RuntimeException
                           | Some aiResponse \<Rightarrow> Inr (parsedResponse_of JSON_parse aiResponse)))))"

text \<open>\<open>error.message || "An error occurred"\<close>, for the three kinds of exception.\<close>

fun falsy :: "jsval \<Rightarrow> bool" where
  "falsy JUndefined = True"
| "falsy JNull = True"
| "falsy (JBool b) = (\<not> b)"
| "falsy (JNumber n) = (n = 0)"
| "falsy (JString s) = (s = [])"
| "falsy v = False"

definition error_message :: "jsval \<Rightarrow> thrown \<Rightarrow> jsval" where
  "error_message m e =
     (case e of
        KeyNotConfigured \<Rightarrow> JString (ascii ''OpenAI API key not configured'')
      | OpenAIApiError statusText \<Rightarrow> JString (ascii ''OpenAI API error: '' @ statusText)
      | RuntimeException \<Rightarrow> if falsy m then JString (ascii ''An error occurred'') else m)"

definition handler :: "(jsval \<Rightarrow> jsval option) \<Rightarrow> EdgeEnv \<Rightarrow> http_response" where
  "handler JSON_parse env =
     (if req_method env = ascii ''OPTIONS'' then \<lparr>status = 200, body_json = None\<rparr>
      else (case handler_try JSON_parse env of
              Inr parsedResponse \<Rightarrow> \<lparr>status = 200, body_json = Some parsedResponse\<rparr>
            | Inl e \<Rightarrow>
                \<lparr>status = 500,
                 body_json = Some (JObject [(ascii ''error'',
                                              error_message (exception_message env) e)])\<rparr>))"

section \<open>Notions of the specification\<close>

text \<open>
  The real turns of one exchange: none when Submit does nothing; otherwise the user's
  turn and, when the call of the inference service was made and gave a reply, the
  assistant's turn built from it.
\<close>

definition exchange_turns :: "SendEnv \<Rightarrow> ChatState \<Rightarrow> Message list" where
  "exchange_turns env st =
     (if handleSend_guard st then []
      else userMessage_of (now_user env) st #
           (if user_insert env = Rejects then []
            else (case inference_reply (ai_fetch env) of
                    None \<Rightarrow> []
                  | Some aiData \<Rightarrow>
                      (case assistantMessage_of (now_assistant env) aiData of
                         None \<Rightarrow> []
                       | Some m \<Rightarrow> [m]))))"

definition row_of_turn :: "jsstring \<Rightarrow> Message \<Rightarrow> message_row" where
  "row_of_turn cid m =
     \<lparr>conversation_id = cid, row_role = role m, row_content = content m,
      row_translation = translation m\<rparr>"


text \<open>The structured reply \<open>{response, translation, tip}\<close>, \<open>tip\<close> being optional.\<close>

fun is_text :: "jsval \<Rightarrow> bool" where
  "is_text (JString s) = True"
| "is_text v = False"

fun is_structured_reply :: "jsval \<Rightarrow> bool" where
  "is_structured_reply (JObject kvs) =
     (case (map_of kvs (ascii ''response''), map_of kvs (ascii ''translation''),
            map_of kvs (ascii ''tip'')) of
        (Some r, Some t, None) \<Rightarrow> is_text r \<and> is_text t
      | (Some r, Some t, Some p) \<Rightarrow> is_text r \<and> is_text t \<and> (is_text p \<or> p = JNull)
      | _ \<Rightarrow> False)"
| "is_structured_reply v = False"

definition parses_as_structured_reply :: "(jsval \<Rightarrow> jsval option) \<Rightarrow> jsstring \<Rightarrow> bool" where
  "parses_as_structured_reply JSON_parse raw =
     (case JSON_parse (JString raw) of
        None \<Rightarrow> False
      | Some v \<Rightarrow> is_structured_reply v)"

section \<open>Sample runs\<close>

text \<open>Typing into the input field: \<open>onChange\<close> calls \<open>setInput\<close> (line 254).\<close>

definition setInput :: "jsstring \<Rightarrow> ChatState \<times> Store \<Rightarrow> ChatState \<times> Store" where
  "setInput text world = (fst world\<lparr>input := text\<rparr>, snd world)"

text \<open>The row of the table \<open>languages\<close> for Spanish, as the migration inserts it.\<close>

definition spanish :: Language where
  "spanish =
     \<lparr>lang_id = ascii ''lang-es'', name = ascii ''Spanish'', code = ascii ''es'',
      flag_emoji = [0xD83C, 0xDDEA, 0xD83C, 0xDDF8], difficulty_level = ascii ''Beginner''\<rparr>"

definition emptyStore :: Store where
  "emptyStore = \<lparr>conversations = [], messages_table = []\<rparr>"

text \<open>The component and the store after a successful \<open>initializeConversation\<close>.\<close>

definition world_ready :: "ChatState \<times> Store" where
  "world_ready =
     fst (initializeConversation (Some (ascii ''user-1'')) spanish
            (Created (ascii ''conv-1'') (ascii ''2025-12-04T15:00:00.000Z''))
            (initialState, emptyStore))"

definition reply_hola :: jsval where
  "reply_hola =
     JObject [(ascii ''response'', JString (ascii ''Hola! Como estas?'')),
              (ascii ''translation'', JString (ascii ''Hello! How are you?'')),
              (ascii ''tip'', JString (ascii ''Use formal greetings''))]"

text \<open>A run in which every request succeeds.\<close>

definition env_ok :: SendEnv where
  "env_ok =
     \<lparr>now_user = 1764860400000, user_insert = Ack,
      ai_fetch = Responded True (JsonValue reply_hola),
      now_assistant = 1764860401000, assistant_insert = Ack,
      now_iso = ascii ''2025-12-04T15:00:01.000Z'', conv_update = Ack,
      now_apology = 1764860402000\<rparr>"

text \<open>A run in which the call of the inference service rejects, and the next one.\<close>

definition env_offline :: SendEnv where
  "env_offline = env_ok\<lparr>ai_fetch := FetchRejects\<rparr>"


definition failed_exchange :: "(ChatState \<times> Store) \<times> call list \<times> completion" where
  "failed_exchange = handleSend spanish env_offline (setInput (ascii ''Hola'') world_ready)"


text \<open>
  A finite part of \<open>JSON.parse\<close>, enough for the sample runs of the edge function: the
  text \<open>null\<close> is JSON and parses to \<open>null\<close>; a text outside the table, such as
  \<open>Hola amigo\<close>, makes \<open>JSON.parse\<close> throw.
\<close>

definition JSON_parse_sample :: "jsval \<Rightarrow> jsval option" where
  "JSON_parse_sample = map_of [(JString (ascii ''null''), JNull)]"

text \<open>A completion whose message content is the text \<open>raw\<close>, and a run that receives it.\<close>

definition completion_with :: "jsstring \<Rightarrow> jsval" where
  "completion_with raw =
     JObject [(ascii ''choices'',
               JArray [JObject [(ascii ''message'',
                                 JObject [(ascii ''role'', JString (ascii ''assistant'')),
                                          (ascii ''content'', JString raw)])]])]"

definition edge_env :: "jsstring \<Rightarrow> EdgeEnv" where
  "edge_env raw =
     \<lparr>req_method = ascii ''POST'', req_json_throws = False,
      OPENAI_API_KEY = Some (ascii ''sk-sample''), messages_spread_throws = False,
      openai = OpenAIOk (JsonValue (completion_with raw)),
      exception_message = JUndefined\<rparr>"

section \<open>Auxiliary facts\<close>

declare toString.simps [simp del]

lemma toString_last: "last (toString n) = of_nat (48 + n mod 10)"
  by (subst toString.simps) simp

lemma digit_not_e: "(of_nat (n mod 10) :: 16 word) \<noteq> 53"
proof
  assume "(of_nat (n mod 10) :: 16 word) = 53"
  then have "unat (of_nat (n mod 10) :: 16 word) = unat (53 :: 16 word)" by simp
  then have "n mod 10 mod 65536 = 53" by (simp add: unat_of_nat)
  moreover have "n mod 10 < 10" by simp
  ultimately show False by simp
qed

text \<open>An identifier made from the clock is never the identifier of the greeting.\<close>

lemma toString_not_welcome [simp]: "toString n \<noteq> welcome_id"
proof
  assume "toString n = welcome_id"
  then have "last (toString n) = last welcome_id" by simp
  then show False
    by (simp add: toString_last welcome_id_def ascii_def digit_not_e)
qed

lemma assistantMessage_of_None_iff:
  "assistantMessage_of now aiData = None \<longleftrightarrow> aiData = JNull \<or> aiData = JUndefined"
  by (cases aiData) (simp_all add: assistantMessage_of_def)

lemma inference_reply_None_cases:
  "inference_reply out = None \<longleftrightarrow>
     out = FetchRejects \<or> (\<exists>b. out = Responded False b) \<or> out = Responded True JsonThrows \<or>
     out = Responded True (JsonValue JNull) \<or> out = Responded True (JsonValue JUndefined)"
  by (cases out rule: inference_reply.cases) auto

lemma inference_reply_has_message:
  "inference_reply out = Some aiData \<Longrightarrow> \<exists>m. assistantMessage_of now aiData = Some m"
  by (cases out rule: inference_reply.cases)
     (auto simp add: assistantMessage_of_None_iff split: if_splits
           simp flip: not_None_eq)

subsection \<open>The paths through the try block and through handleSend\<close>

lemma try_block_no_reply:
  "inference_reply (ai_fetch env) = None \<Longrightarrow>
   try_block language env ms cid userMessage world =
     (Threw, world, [FetchAiChat (ai_request language ms userMessage)])"
  by (auto simp add: try_block_def inference_reply_None_cases assistantMessage_of_def)

lemma try_block_reply:
  "inference_reply (ai_fetch env) = Some aiData \<Longrightarrow>
   assistantMessage_of (now_assistant env) aiData = Some m \<Longrightarrow>
   try_block language env ms cid userMessage (st, db) =
     ((if assistant_insert env = Rejects \<or> conv_update env = Rejects then Threw else Returned),
      (st\<lparr>messages := messages st @ [m]\<rparr>,
       (if assistant_insert env = Rejects
        then store_insert (assistant_insert env) (assistant_row cid m) db
        else store_update (conv_update env) cid (int (length ms) + 2) (now_iso env)
               (store_insert (assistant_insert env) (assistant_row cid m) db))),
      FetchAiChat (ai_request language ms userMessage) # InsertMessage (assistant_row cid m) #
        (if assistant_insert env = Rejects then []
         else [UpdateConversation cid (int (length ms) + 2) (now_iso env)]))"
  by (cases "ai_fetch env" rule: inference_reply.cases)
     (auto simp add: try_block_def Let_def split: if_splits)

lemma handleSend_noop:
  "handleSend_guard st \<Longrightarrow> handleSend language env (st, db) = ((st, db), [], Returned)"
  by (simp add: handleSend_def handleSend_closure_def)

lemma handleSend_user_insert_rejects:
  assumes "trim (input st) \<noteq> []" "conversationId st = Some cid" "cid \<noteq> []" "\<not> loading st"
    and "user_insert env = Rejects"
  shows "handleSend language env (st, db) =
           ((handleSend_sync (now_user env) st, db),
            [InsertMessage (user_row cid (userMessage_of (now_user env) st))], Threw)"
  using assms
  by (simp add: handleSend_def handleSend_closure_def handleSend_sync_on_def handleSend_sync_def
      handleSend_guard_def Let_def store_insert_def)

lemma handleSend_no_reply:
  assumes "trim (input st) \<noteq> []" "conversationId st = Some cid" "cid \<noteq> []" "\<not> loading st"
    and "user_insert env \<noteq> Rejects" "inference_reply (ai_fetch env) = None"
  shows "handleSend language env (st, db) =
           ((st\<lparr>messages := messages st @
                  [userMessage_of (now_user env) st, apologyMessage (now_apology env)],
                input := [], loading := False\<rparr>,
             store_insert (user_insert env) (user_row cid (userMessage_of (now_user env) st)) db),
            [InsertMessage (user_row cid (userMessage_of (now_user env) st)),
             FetchAiChat (ai_request language (messages st) (userMessage_of (now_user env) st))],
            Returned)"
  using assms
  by (simp add: handleSend_def handleSend_closure_def handleSend_sync_on_def
      handleSend_guard_def Let_def try_block_no_reply
      handleSend_sync_def)

lemma handleSend_reply:
  assumes "trim (input st) \<noteq> []" "conversationId st = Some cid" "cid \<noteq> []" "\<not> loading st"
    and "user_insert env \<noteq> Rejects" "inference_reply (ai_fetch env) = Some aiData"
    and "assistantMessage_of (now_assistant env) aiData = Some m"
  shows "handleSend language env (st, db) =
           ((st\<lparr>messages := messages st @ userMessage_of (now_user env) st # m #
                  (if assistant_insert env = Rejects \<or> conv_update env = Rejects
                   then [apologyMessage (now_apology env)] else []),
                input := [], loading := False\<rparr>,
             (if assistant_insert env = Rejects
              then store_insert (assistant_insert env) (assistant_row cid m)
                     (store_insert (user_insert env)
                        (user_row cid (userMessage_of (now_user env) st)) db)
              else store_update (conv_update env) cid (int (length (messages st)) + 2) (now_iso env)
                     (store_insert (assistant_insert env) (assistant_row cid m)
                        (store_insert (user_insert env)
                           (user_row cid (userMessage_of (now_user env) st)) db)))),
            InsertMessage (user_row cid (userMessage_of (now_user env) st)) #
            FetchAiChat (ai_request language (messages st) (userMessage_of (now_user env) st)) #
            InsertMessage (assistant_row cid m) #
            (if assistant_insert env = Rejects then []
             else [UpdateConversation cid (int (length (messages st)) + 2) (now_iso env)]),
            Returned)"
  using assms
  by (simp add: handleSend_def handleSend_closure_def handleSend_sync_on_def
      handleSend_guard_def Let_def try_block_reply
      handleSend_sync_def)

text \<open>
  When the first insert does not reject, \<open>finally\<close> is reached: the handler returns
  with \<open>loading\<close> cleared.
\<close>

lemma handleSend_clears_loading:
  assumes "trim (input st) \<noteq> []" "conversationId st = Some cid" "cid \<noteq> []" "\<not> loading st"
    and "user_insert env \<noteq> Rejects"
  shows "\<not> loading (fst (fst (handleSend language env (st, db)))) \<and>
         snd (snd (handleSend language env (st, db))) = Returned"
proof (cases "inference_reply (ai_fetch env)")
  case None
  from handleSend_no_reply [OF assms None] show ?thesis by simp
next
  case (Some aiData)
  from inference_reply_has_message [OF Some]
  obtain m where m: "assistantMessage_of (now_assistant env) aiData = Some m" by blast
  from handleSend_reply [OF assms Some m] show ?thesis by simp
qed

subsection \<open>The sample runs, evaluated\<close>

lemma world_ready_eq:
  "world_ready =
     (\<lparr>messages = [welcomeMessage spanish], input = [], loading = False,
       conversationId = Some (ascii ''conv-1'')\<rparr>,
      \<lparr>conversations =
         [\<lparr>conv_id = ascii ''conv-1'', user_id = ascii ''user-1'', language_code = ascii ''es'',
           title = ascii ''Spanish Practice'', difficulty = ascii ''Beginner'', message_count = 0,
           updated_at = ascii ''2025-12-04T15:00:00.000Z''\<rparr>],
       messages_table = []\<rparr>)"
  by (simp add: world_ready_def initializeConversation_def initialState_def emptyStore_def
      spanish_def ascii_def)

text \<open>The three ways a run of \<open>handleSend\<close> that passes the guard can go.\<close>

lemma handleSend_paths [consumes 4, case_names rejects no_reply reply]:
  assumes "trim (input st) \<noteq> []" "conversationId st = Some cid" "cid \<noteq> []" "\<not> loading st"
  obtains
    "user_insert env = Rejects"
  | "user_insert env \<noteq> Rejects" "inference_reply (ai_fetch env) = None"
  | aiData m where "user_insert env \<noteq> Rejects"
      "inference_reply (ai_fetch env) = Some aiData"
      "assistantMessage_of (now_assistant env) aiData = Some m"
  using inference_reply_has_message by (cases "inference_reply (ai_fetch env)") blast+

lemma assistantMessage_of_role:
  "assistantMessage_of now aiData = Some m \<Longrightarrow> role m = Assistant"
  by (auto simp add: assistantMessage_of_def split: option.splits)

lemma failed_exchange_eq:
  "failed_exchange =
     ((\<lparr>messages = [welcomeMessage spanish,
                     userMessage_of 1764860400000 (fst (setInput (ascii ''Hola'') world_ready)),
                     apologyMessage 1764860402000],
        input = [], loading = False, conversationId = Some (ascii ''conv-1'')\<rparr>,
       snd world_ready\<lparr>messages_table :=
         [user_row (ascii ''conv-1'')
            (userMessage_of 1764860400000 (fst (setInput (ascii ''Hola'') world_ready)))]\<rparr>),
      [InsertMessage (user_row (ascii ''conv-1'')
         (userMessage_of 1764860400000 (fst (setInput (ascii ''Hola'') world_ready)))),
       FetchAiChat (ai_request spanish [welcomeMessage spanish]
         (userMessage_of 1764860400000 (fst (setInput (ascii ''Hola'') world_ready))))],
      Returned)"
proof -
  have h: "trim (input (fst (setInput (ascii ''Hola'') world_ready))) \<noteq> []"
    "conversationId (fst (setInput (ascii ''Hola'') world_ready)) = Some (ascii ''conv-1'')"
    "ascii ''conv-1'' \<noteq> []"
    "\<not> loading (fst (setInput (ascii ''Hola'') world_ready))"
    "user_insert env_offline \<noteq> Rejects"
    "inference_reply (ai_fetch env_offline) = None"
    by (simp_all add: world_ready_eq setInput_def env_offline_def env_ok_def
        trim_def isWhiteSpace_def ascii_def)
  have "failed_exchange =
      handleSend spanish env_offline
        (fst (setInput (ascii ''Hola'') world_ready), snd world_ready)"
    by (simp add: failed_exchange_def setInput_def)
  also note handleSend_no_reply [OF h]
  finally show ?thesis
    by (simp add: env_offline_def env_ok_def store_insert_def)
       (simp add: world_ready_eq setInput_def)
qed


lemma exchange_turns_unguarded:
  assumes "trim (input st) \<noteq> []" "conversationId st = Some cid" "cid \<noteq> []" "\<not> loading st"
  shows "exchange_turns env st =
           userMessage_of (now_user env) st #
           (if user_insert env = Rejects then []
            else (case inference_reply (ai_fetch env) of
                    None \<Rightarrow> []
                  | Some aiData \<Rightarrow>
                      (case assistantMessage_of (now_assistant env) aiData of
                         None \<Rightarrow> []
                       | Some m \<Rightarrow> [m])))"
  using assms by (simp add: exchange_turns_def handleSend_guard_def)

lemma row_of_turn_user: "row_of_turn cid (userMessage_of now st) = user_row cid (userMessage_of now st)"
  by (simp add: row_of_turn_def user_row_def userMessage_of_def)

lemma row_of_turn_assistant:
  "assistantMessage_of now aiData = Some m \<Longrightarrow> row_of_turn cid m = assistant_row cid m"
  by (auto simp add: row_of_turn_def assistant_row_def assistantMessage_of_def
      split: option.splits)

lemma handleSend_inserts_real_turns:
  "inserted_rows (fst (snd (handleSend language env (st, db)))) =
     (case conversationId st of
        None \<Rightarrow> []
      | Some cid \<Rightarrow> map (row_of_turn cid) (exchange_turns env st)) \<and>
   (messages (fst (fst (handleSend language env (st, db)))) =
      messages st @ exchange_turns env st \<or>
    messages (fst (fst (handleSend language env (st, db)))) =
      messages st @ exchange_turns env st @ [apologyMessage (now_apology env)])"
proof (cases "handleSend_guard st")
  case True
  from handleSend_noop [OF True] True show ?thesis
    by (simp add: exchange_turns_def split: option.splits)
next
  case False
  then obtain cid where g: "trim (input st) \<noteq> []" "conversationId st = Some cid" "cid \<noteq> []"
      "\<not> loading st"
    by (auto simp add: handleSend_guard_def)
  from g show ?thesis
  proof (cases rule: handleSend_paths [where env = env])
    case rejects
    from handleSend_user_insert_rejects [OF g rejects] show ?thesis
      by (simp add: exchange_turns_unguarded [OF g] g(2) rejects row_of_turn_user
          handleSend_sync_def)
  next
    case no_reply
    from handleSend_no_reply [OF g no_reply] show ?thesis
      by (simp add: exchange_turns_unguarded [OF g] g(2) no_reply row_of_turn_user)
  next
    case (reply aiData m)
    from handleSend_reply [OF g reply] show ?thesis
      by (simp add: exchange_turns_unguarded [OF g] g(2) reply row_of_turn_user
          row_of_turn_assistant [OF reply(3)])
  qed
qed

lemma choice_content_completion_with:
  "choice_content (completion_with raw) = Some (JString raw)"
  by (simp add: choice_content_def completion_with_def ascii_def)

text \<open>
  What an acknowledged update leaves in the store: after a successful exchange in a
  conversation that the store holds, the stored count is the length of the sequence
  before the exchange plus 2, whatever it was before.
\<close>

lemma stored_message_count_insert [simp]:
  "stored_message_count (store_insert out row db) cid = stored_message_count db cid"
  by (simp add: stored_message_count_def store_insert_def)

lemma find_updated_row:
  "find (\<lambda>r. conv_id r = cid) rows = Some r \<Longrightarrow>
   find (\<lambda>r. conv_id r = cid)
     (map (\<lambda>r. if conv_id r = cid then r\<lparr>message_count := n, updated_at := ts\<rparr> else r) rows) =
   Some (r\<lparr>message_count := n, updated_at := ts\<rparr>)"
  by (induction rows) (auto split: if_splits)

lemma stored_message_count_update:
  assumes "stored_message_count db cid = Some k"
  shows "stored_message_count (store_update Ack cid n ts db) cid = Some n"
proof -
  from assms obtain r where "find (\<lambda>r. conv_id r = cid) (conversations db) = Some r"
    by (auto simp add: stored_message_count_def)
  from find_updated_row [OF this, where n = n and ts = ts] show ?thesis
    by (simp add: stored_message_count_def store_update_def)
qed

lemma handleSend_success_message_count:
  assumes "trim (input st) \<noteq> []" "conversationId st = Some cid" "cid \<noteq> []" "\<not> loading st"
    and "user_insert env \<noteq> Rejects" "inference_reply (ai_fetch env) = Some aiData"
    and "assistant_insert env \<noteq> Rejects" "conv_update env = Ack"
    and "stored_message_count db cid = Some k"
  shows "stored_message_count (snd (fst (handleSend language env (st, db)))) cid =
           Some (int (length (messages st)) + 2)"
proof -
  from inference_reply_has_message [OF assms(6)]
  obtain m where m: "assistantMessage_of (now_assistant env) aiData = Some m" by blast
  from handleSend_reply [OF assms(1-6) m, of language db] assms(7-9) show ?thesis
    by (simp add: stored_message_count_update)
qed


text \<open>The greeting for every language name, written out.\<close>

lemma getWelcomeMessage_cases:
  "getWelcomeMessage lname =
     (if lname = ascii ''Spanish'' then
        JString ([0x00A1] @ ascii ''Hola! Soy tu tutor de espa'' @ [0x00F1] @ ascii ''ol. ''
                 @ [0x00A1] @ ascii ''Vamos a practicar juntos!'')
      else if lname = ascii ''French'' then
        JString (ascii ''Bonjour! Je suis votre tuteur de fran'' @ [0x00E7]
                 @ ascii ''ais. Pratiquons ensemble!'')
      else if lname = ascii ''German'' then
        JString (ascii ''Hallo! Ich bin dein Deutsch-Tutor. Lass uns zusammen '' @ [0x00FC]
                 @ ascii ''ben!'')
      else if lname = ascii ''Hindi'' then
        JString [0x0928, 0x092E, 0x0938, 0x094D, 0x0924, 0x0947, 0x0021, 0x0020,
                 0x092E, 0x0948, 0x0902, 0x0020, 0x0906, 0x092A, 0x0915, 0x093E, 0x0020,
                 0x0939, 0x093F, 0x0902, 0x0926, 0x0940, 0x0020,
                 0x0936, 0x093F, 0x0915, 0x094D, 0x0937, 0x0915, 0x0020,
                 0x0939, 0x0942, 0x0902, 0x0964, 0x0020, 0x091A, 0x0932, 0x093F, 0x090F, 0x0020,
                 0x0938, 0x093E, 0x0925, 0x0020, 0x092E, 0x0947, 0x0902, 0x0020,
                 0x0905, 0x092D, 0x094D, 0x092F, 0x093E, 0x0938, 0x0020,
                 0x0915, 0x0930, 0x0924, 0x0947, 0x0020, 0x0939, 0x0948, 0x0902, 0x0021]
      else if lname = ascii ''Mandarin'' then
        JString [0x4F60, 0x597D, 0xFF01, 0x6211, 0x662F, 0x4F60, 0x7684, 0x4E2D, 0x6587, 0x8001,
                 0x5E08, 0x3002, 0x8BA9, 0x6211, 0x4EEC, 0x4E00, 0x8D77, 0x7EC3, 0x4E60, 0x5427,
                 0xFF01]
      else if lname = ascii ''Japanese'' then
        JString [0x3053, 0x3093, 0x306B, 0x3061, 0x306F, 0xFF01, 0x79C1, 0x306F, 0x3042, 0x306A,
                 0x305F, 0x306E, 0x65E5, 0x672C, 0x8A9E, 0x306E, 0x5148, 0x751F, 0x3067, 0x3059,
                 0x3002, 0x4E00, 0x7DD2, 0x306B, 0x7DF4, 0x7FD2, 0x3057, 0x307E, 0x3057, 0x3087,
                 0x3046, 0xFF01]
      else if lname = ascii ''Italian'' then
        JString (ascii ''Ciao! Sono il tuo tutor di italiano. Pratichiamo insieme!'')
      else if lname = ascii ''Portuguese'' then
        JString (ascii ''Ol'' @ [0x00E1] @ ascii ''! Sou seu tutor de portugu'' @ [0x00EA]
                 @ ascii ''s. Vamos praticar juntos!'')
      else if lname \<in> {ascii ''constructor'', ascii ''hasOwnProperty'', ascii ''isPrototypeOf'',
                        ascii ''propertyIsEnumerable'', ascii ''toLocaleString'',
                        ascii ''toString'', ascii ''valueOf'', ascii ''__proto__'',
                        ascii ''__defineGetter__'', ascii ''__defineSetter__'',
                        ascii ''__lookupGetter__'', ascii ''__lookupSetter__''} then
        JInherited lname
      else JString (ascii ''Hello! Let'' @ [0x0027] @ ascii ''s practice together!''))"
  by (simp add: getWelcomeMessage_def object_prototype_members_def ascii_def)

lemma getWelcomeMessage_default_sample:
  "getWelcomeMessage (ascii ''Korean'') =
     JString (ascii ''Hello! Let'' @ [0x0027] @ ascii ''s practice together!'')"
  by (simp add: getWelcomeMessage_def object_prototype_members_def ascii_def)

lemma getWelcomeMessage_inherited_sample:
  "getWelcomeMessage (ascii ''constructor'') = JInherited (ascii ''constructor'')"
  by (simp add: getWelcomeMessage_def object_prototype_members_def ascii_def)

section \<open>The claims\<close>

text \<open>
  C1. Claimed: every successful exchange raises the stored \<open>message_count\<close> by exactly 2,
  and after Initialize for Spanish at level Beginner followed by Submit of \<open>Hola\<close> with a
  successful inference the turn sequence is greeting, user turn, assistant turn and the
  stored count is 2. On that run the turn sequence is as claimed and the store holds two
  message rows, but the count written is \<open>messages.length + 2\<close> with the greeting in
  \<open>messages\<close>: the stored count goes from 0 to 3.
\<close>

theorem C1_scenario_stored_count_is_three:
  "messages (fst (fst (handleSend spanish env_ok (setInput (ascii ''Hola'') world_ready)))) =
     [welcomeMessage spanish,
      \<lparr>msg_id = toString 1764860400000, role = User, content = JString (ascii ''Hola''),
       translation = JUndefined, tip = JUndefined\<rparr>,
      \<lparr>msg_id = toString 1764860401000, role = Assistant,
       content = JString (ascii ''Hola! Como estas?''),
       translation = JString (ascii ''Hello! How are you?''),
       tip = JString (ascii ''Use formal greetings'')\<rparr>] \<and>
   stored_message_count (snd world_ready) (ascii ''conv-1'') = Some 0 \<and>
   stored_message_count
     (snd (fst (handleSend spanish env_ok (setInput (ascii ''Hola'') world_ready))))
     (ascii ''conv-1'') = Some 3 \<and>
   length (messages_table
     (snd (fst (handleSend spanish env_ok (setInput (ascii ''Hola'') world_ready))))) = 2"
  by (simp add: world_ready_eq setInput_def handleSend_def handleSend_closure_def handleSend_sync_on_def handleSend_guard_def try_block_def
      Let_def env_ok_def
      reply_hola_def handleSend_sync_def userMessage_of_def assistantMessage_of_def
      store_insert_def store_update_def stored_message_count_def trim_def isWhiteSpace_def
      ascii_def)

text \<open>
  C2. Claimed: whenever Submit passes its preconditions, \<open>loading\<close> is cleared by the time
  the operation completes, also when the request that persists the user turn fails. The
  first insert is awaited before the \<open>try\<close> statement whose \<open>finally\<close> clears the flag:
  on the run in which that awaited request rejects, the handler ends with an exception,
  no inference call is made and \<open>loading\<close> is still set. (When the request resolves, with
  or without an error, the flag is cleared: \<open>handleSend_clears_loading\<close>.)
\<close>

theorem C2_loading_stays_set_when_user_insert_rejects:
  "loading (fst (fst (handleSend spanish (env_ok\<lparr>user_insert := Rejects\<rparr>)
                        (setInput (ascii ''Hola'') world_ready)))) \<and>
   snd (snd (handleSend spanish (env_ok\<lparr>user_insert := Rejects\<rparr>)
               (setInput (ascii ''Hola'') world_ready))) = Threw \<and>
   fetch_requests (fst (snd (handleSend spanish (env_ok\<lparr>user_insert := Rejects\<rparr>)
               (setInput (ascii ''Hola'') world_ready)))) = []"
  by (simp add: world_ready_eq setInput_def handleSend_def handleSend_closure_def handleSend_sync_on_def handleSend_guard_def Let_def
      env_ok_def
      handleSend_sync_def trim_def isWhiteSpace_def ascii_def)

text \<open>
  C6. When the trimmed text is not empty, a conversation exists and no exchange is in
  flight, the part of Submit that runs before its first \<open>await\<close> (and so before any
  request is issued and before any awaited result exists) appends exactly one user turn.
  Whatever the requests answer afterwards, the first request issued is the insert of that
  turn, and the final sequence is the sequence with that one user turn followed by
  assistant turns only.
\<close>

theorem C6_user_turn_appended_before_any_await:
  assumes "trim (input st) \<noteq> []" "conversationId st = Some cid" "cid \<noteq> []" "\<not> loading st"
  shows "messages (handleSend_sync (now_user env) st) =
           messages st @ [userMessage_of (now_user env) st] \<and>
         role (userMessage_of (now_user env) st) = User \<and>
         (\<exists>calls. fst (snd (handleSend language env (st, db))) =
            InsertMessage (user_row cid (userMessage_of (now_user env) st)) # calls) \<and>
         (\<exists>rest. messages (fst (fst (handleSend language env (st, db)))) =
            messages (handleSend_sync (now_user env) st) @ rest \<and>
            list_all (\<lambda>m. role m = Assistant) rest)"
proof (intro conjI)
  show "messages (handleSend_sync (now_user env) st) =
           messages st @ [userMessage_of (now_user env) st]"
    by (simp add: handleSend_sync_def)
  show "role (userMessage_of (now_user env) st) = User"
    by (simp add: userMessage_of_def)
  from assms
  show "\<exists>calls. fst (snd (handleSend language env (st, db))) =
            InsertMessage (user_row cid (userMessage_of (now_user env) st)) # calls"
  proof (cases rule: handleSend_paths [where env = env])
    case rejects
    from handleSend_user_insert_rejects [OF assms rejects] show ?thesis by simp
  next
    case no_reply
    from handleSend_no_reply [OF assms no_reply] show ?thesis by simp
  next
    case (reply aiData m)
    from handleSend_reply [OF assms reply] show ?thesis by simp
  qed
  from assms
  show "\<exists>rest. messages (fst (fst (handleSend language env (st, db)))) =
            messages (handleSend_sync (now_user env) st) @ rest \<and>
            list_all (\<lambda>m. role m = Assistant) rest"
  proof (cases rule: handleSend_paths [where env = env])
    case rejects
    from handleSend_user_insert_rejects [OF assms rejects] show ?thesis by simp
  next
    case no_reply
    from handleSend_no_reply [OF assms no_reply] show ?thesis
      by (simp add: handleSend_sync_def apologyMessage_def)
  next
    case (reply aiData m)
    from handleSend_reply [OF assms reply] assistantMessage_of_role [OF reply(3)]
    show ?thesis
      by (simp add: handleSend_sync_def apologyMessage_def)
  qed
qed

theorem C6_user_turn_appended_before_any_await_witness:
  "trim (input (fst world_ready\<lparr>input := ascii ''Hola''\<rparr>)) \<noteq> [] \<and>
   conversationId (fst world_ready\<lparr>input := ascii ''Hola''\<rparr>) = Some (ascii ''conv-1'') \<and>
   ascii ''conv-1'' \<noteq> [] \<and>
   \<not> loading (fst world_ready\<lparr>input := ascii ''Hola''\<rparr>) \<and>
   messages (handleSend_sync (now_user env_ok) (fst world_ready\<lparr>input := ascii ''Hola''\<rparr>)) =
     messages (fst world_ready\<lparr>input := ascii ''Hola''\<rparr>) @
       [userMessage_of (now_user env_ok) (fst world_ready\<lparr>input := ascii ''Hola''\<rparr>)] \<and>
   role (userMessage_of (now_user env_ok) (fst world_ready\<lparr>input := ascii ''Hola''\<rparr>)) = User \<and>
   (\<exists>calls. fst (snd (handleSend spanish env_ok
        (fst world_ready\<lparr>input := ascii ''Hola''\<rparr>, snd world_ready))) =
      InsertMessage (user_row (ascii ''conv-1'')
        (userMessage_of (now_user env_ok) (fst world_ready\<lparr>input := ascii ''Hola''\<rparr>))) # calls) \<and>
   (\<exists>rest. messages (fst (fst (handleSend spanish env_ok
        (fst world_ready\<lparr>input := ascii ''Hola''\<rparr>, snd world_ready)))) =
      messages (handleSend_sync (now_user env_ok) (fst world_ready\<lparr>input := ascii ''Hola''\<rparr>)) @ rest \<and>
      list_all (\<lambda>m. role m = Assistant) rest)"
proof -
  have h1: "trim (input (fst world_ready\<lparr>input := ascii ''Hola''\<rparr>)) \<noteq> []"
    and h2: "conversationId (fst world_ready\<lparr>input := ascii ''Hola''\<rparr>) = Some (ascii ''conv-1'')"
    and h3: "ascii ''conv-1'' \<noteq> []"
    and h4: "\<not> loading (fst world_ready\<lparr>input := ascii ''Hola''\<rparr>)"
    by (simp_all add: world_ready_eq trim_def isWhiteSpace_def ascii_def)
  from h1 h2 h3 h4
    C6_user_turn_appended_before_any_await [OF h1 h2 h3 h4, of env_ok spanish "snd world_ready"]
  show ?thesis by blast
qed

text \<open>
  C10. When the trimmed input is not empty (and the guard is passed), the user turn
  that Submit appends, the text of the row sent to the store for it, and the last history
  element sent to the inference service, whenever that call is made, all carry the
  trimmed input.
\<close>

theorem C10_trimmed_text_is_used_everywhere:
  assumes "trim (input st) \<noteq> []" "conversationId st = Some cid" "cid \<noteq> []" "\<not> loading st"
  shows "content (messages (fst (fst (handleSend language env (st, db)))) ! length (messages st)) =
           JString (trim (input st)) \<and>
         map row_content (filter (\<lambda>r. row_role r = User)
           (inserted_rows (fst (snd (handleSend language env (st, db)))))) =
           [JString (trim (input st))] \<and>
         map (\<lambda>r. last (req_messages r)) (fetch_requests (fst (snd (handleSend language env (st, db))))) =
           (if user_insert env = Rejects then [] else [(User, JString (trim (input st)))])"
  using assms
proof (cases rule: handleSend_paths [where env = env])
  case rejects
  from handleSend_user_insert_rejects [OF assms rejects] show ?thesis
    by (simp add: rejects handleSend_sync_def userMessage_of_def user_row_def)
next
  case no_reply
  from handleSend_no_reply [OF assms no_reply] show ?thesis
    by (simp add: no_reply userMessage_of_def user_row_def ai_request_def)
next
  case (reply aiData m)
  from handleSend_reply [OF assms reply] assistantMessage_of_role [OF reply(3)]
  show ?thesis
    by (simp add: reply userMessage_of_def user_row_def ai_request_def assistant_row_def)
qed

theorem C10_trimmed_text_is_used_everywhere_witness:
  "trim (input (fst world_ready\<lparr>input := ascii '' Hola  ''\<rparr>)) \<noteq> [] \<and>
   conversationId (fst world_ready\<lparr>input := ascii '' Hola  ''\<rparr>) = Some (ascii ''conv-1'') \<and>
   ascii ''conv-1'' \<noteq> [] \<and>
   \<not> loading (fst world_ready\<lparr>input := ascii '' Hola  ''\<rparr>) \<and>
   content (messages (fst (fst (handleSend spanish env_ok
       (fst world_ready\<lparr>input := ascii '' Hola  ''\<rparr>, snd world_ready)))) ! 1) =
     JString (ascii ''Hola'') \<and>
   map row_content (filter (\<lambda>r. row_role r = User)
     (inserted_rows (fst (snd (handleSend spanish env_ok
       (fst world_ready\<lparr>input := ascii '' Hola  ''\<rparr>, snd world_ready)))))) =
     [JString (ascii ''Hola'')] \<and>
   map (\<lambda>r. last (req_messages r)) (fetch_requests (fst (snd (handleSend spanish env_ok
       (fst world_ready\<lparr>input := ascii '' Hola  ''\<rparr>, snd world_ready))))) =
     [(User, JString (ascii ''Hola''))]"
proof -
  have h1: "trim (input (fst world_ready\<lparr>input := ascii '' Hola  ''\<rparr>)) \<noteq> []"
    and h2: "conversationId (fst world_ready\<lparr>input := ascii '' Hola  ''\<rparr>) = Some (ascii ''conv-1'')"
    and h3: "ascii ''conv-1'' \<noteq> []"
    and h4: "\<not> loading (fst world_ready\<lparr>input := ascii '' Hola  ''\<rparr>)"
    by (simp_all add: world_ready_eq trim_def isWhiteSpace_def ascii_def)
  have t: "trim (input (fst world_ready\<lparr>input := ascii '' Hola  ''\<rparr>)) = ascii ''Hola''"
    by (simp add: trim_def isWhiteSpace_def ascii_def)
  have l: "length (messages (fst world_ready\<lparr>input := ascii '' Hola  ''\<rparr>)) = 1"
    and u: "user_insert env_ok \<noteq> Rejects"
    by (simp_all add: world_ready_eq env_ok_def)
  from C10_trimmed_text_is_used_everywhere [OF h1 h2 h3 h4, of spanish env_ok "snd world_ready"]
  have c: "content (messages (fst (fst (handleSend spanish env_ok
       (fst world_ready\<lparr>input := ascii '' Hola  ''\<rparr>, snd world_ready)))) ! 1) =
     JString (ascii ''Hola'') \<and>
   map row_content (filter (\<lambda>r. row_role r = User)
     (inserted_rows (fst (snd (handleSend spanish env_ok
       (fst world_ready\<lparr>input := ascii '' Hola  ''\<rparr>, snd world_ready)))))) =
     [JString (ascii ''Hola'')] \<and>
   map (\<lambda>r. last (req_messages r)) (fetch_requests (fst (snd (handleSend spanish env_ok
       (fst world_ready\<lparr>input := ascii '' Hola  ''\<rparr>, snd world_ready))))) =
     [(User, JString (ascii ''Hola''))]"
    unfolding t l using u by simp
  from h1 h2 h3 h4 c show ?thesis by blast
qed

text \<open>
  C3. Claimed: when the inference call fails, the turn sequence grows by exactly 1, one
  synthetic assistant turn with the fixed apology as text and as translation and no tip is
  appended, it is not persisted, nothing is retried, and \<open>loading\<close> returns to false.
  As stated this fails: over a Submit whose inference call rejects the sequence grows by
  2, the user turn and the apology.
\<close>

theorem C3_sequence_grows_by_two_counterexample:
  "inference_reply (ai_fetch env_offline) = None \<and>
   length (messages (fst (fst (handleSend spanish env_offline
       (setInput (ascii ''Hola'') world_ready))))) \<noteq>
     length (messages (fst (setInput (ascii ''Hola'') world_ready))) + 1"
  using failed_exchange_eq
  by (simp add: failed_exchange_def env_offline_def env_ok_def)
     (simp add: world_ready_eq setInput_def)

text \<open>
  C3, amended. For every Submit that passes the guard and whose inference call is made
  and fails (the fetch rejects, the answer is not ok, its body is not JSON, or the body
  is \<open>null\<close>): the sequence grows by exactly 2, namely the user turn followed by exactly
  one assistant turn carrying the fixed apology as text and as translation, with no tip
  (so by exactly 1 over the sequence as the synchronous part of Submit left it);
  the only insert issued is the user turn's and the store receives nothing else; exactly
  one inference request was issued; \<open>loading\<close> is false at the end.
\<close>

theorem C3_inference_failure_appends_one_apology:
  assumes "trim (input st) \<noteq> []" "conversationId st = Some cid" "cid \<noteq> []" "\<not> loading st"
    and "user_insert env \<noteq> Rejects" "inference_reply (ai_fetch env) = None"
  shows "messages (fst (fst (handleSend language env (st, db)))) =
           messages st @ [userMessage_of (now_user env) st, apologyMessage (now_apology env)] \<and>
         length (messages (fst (fst (handleSend language env (st, db))))) = length (messages st) + 2 \<and>
         length (messages (fst (fst (handleSend language env (st, db))))) =
           length (messages (handleSend_sync (now_user env) st)) + 1 \<and>
         apologyMessage (now_apology env) =
           \<lparr>msg_id = toString (now_apology env), role = Assistant, content = JString apology_text,
            translation = JString apology_text, tip = JUndefined\<rparr> \<and>
         inserted_rows (fst (snd (handleSend language env (st, db)))) =
           [user_row cid (userMessage_of (now_user env) st)] \<and>
         snd (fst (handleSend language env (st, db))) =
           store_insert (user_insert env) (user_row cid (userMessage_of (now_user env) st)) db \<and>
         length (fetch_requests (fst (snd (handleSend language env (st, db))))) = 1 \<and>
         \<not> loading (fst (fst (handleSend language env (st, db)))) \<and>
         snd (snd (handleSend language env (st, db))) = Returned"
  using handleSend_no_reply [OF assms, of language db]
  by (simp add: apologyMessage_def handleSend_sync_def)

theorem C3_inference_failure_appends_one_apology_witness:
  "trim (input (fst world_ready\<lparr>input := ascii ''Hola''\<rparr>)) \<noteq> [] \<and>
   conversationId (fst world_ready\<lparr>input := ascii ''Hola''\<rparr>) = Some (ascii ''conv-1'') \<and>
   ascii ''conv-1'' \<noteq> [] \<and>
   \<not> loading (fst world_ready\<lparr>input := ascii ''Hola''\<rparr>) \<and>
   user_insert env_offline \<noteq> Rejects \<and>
   inference_reply (ai_fetch env_offline) = None \<and>
   messages (fst (fst (handleSend spanish env_offline
       (fst world_ready\<lparr>input := ascii ''Hola''\<rparr>, snd world_ready)))) =
     messages (fst world_ready\<lparr>input := ascii ''Hola''\<rparr>) @
       [userMessage_of (now_user env_offline) (fst world_ready\<lparr>input := ascii ''Hola''\<rparr>),
        apologyMessage (now_apology env_offline)] \<and>
   inserted_rows (fst (snd (handleSend spanish env_offline
       (fst world_ready\<lparr>input := ascii ''Hola''\<rparr>, snd world_ready)))) =
     [user_row (ascii ''conv-1'')
        (userMessage_of (now_user env_offline) (fst world_ready\<lparr>input := ascii ''Hola''\<rparr>))] \<and>
   length (fetch_requests (fst (snd (handleSend spanish env_offline
       (fst world_ready\<lparr>input := ascii ''Hola''\<rparr>, snd world_ready))))) = 1 \<and>
   \<not> loading (fst (fst (handleSend spanish env_offline
       (fst world_ready\<lparr>input := ascii ''Hola''\<rparr>, snd world_ready))))"
proof -
  have h1: "trim (input (fst world_ready\<lparr>input := ascii ''Hola''\<rparr>)) \<noteq> []"
    and h2: "conversationId (fst world_ready\<lparr>input := ascii ''Hola''\<rparr>) = Some (ascii ''conv-1'')"
    and h3: "ascii ''conv-1'' \<noteq> []"
    and h4: "\<not> loading (fst world_ready\<lparr>input := ascii ''Hola''\<rparr>)"
    and h5: "user_insert env_offline \<noteq> Rejects"
    and h6: "inference_reply (ai_fetch env_offline) = None"
    by (simp_all add: world_ready_eq env_offline_def env_ok_def trim_def isWhiteSpace_def
        ascii_def)
  from h1 h2 h3 h4 h5 h6
    C3_inference_failure_appends_one_apology [OF h1 h2 h3 h4 h5 h6, of spanish "snd world_ready"]
  show ?thesis by blast
qed

text \<open>
  C5. Claimed: no failure of a persistence request during Submit is surfaced; no turn is
  added on account of it and the conversation continues as if the request had succeeded.
  As stated this fails: the insert of the assistant turn and the update of the counter
  are awaited inside the \<open>try\<close> block, so when the awaited insert rejects, \<open>catch\<close>
  appends the apology turn after the assistant turn.
\<close>

theorem C5_rejected_assistant_insert_is_surfaced_counterexample:
  "messages (fst (fst (handleSend spanish (env_ok\<lparr>assistant_insert := Rejects\<rparr>)
       (setInput (ascii ''Hola'') world_ready)))) =
     messages (fst (fst (handleSend spanish env_ok (setInput (ascii ''Hola'') world_ready)))) @
       [apologyMessage 1764860402000] \<and>
   messages (fst (fst (handleSend spanish (env_ok\<lparr>assistant_insert := Rejects\<rparr>)
       (setInput (ascii ''Hola'') world_ready)))) \<noteq>
     messages (fst (fst (handleSend spanish env_ok (setInput (ascii ''Hola'') world_ready))))"
  by (simp add: world_ready_eq setInput_def handleSend_def handleSend_closure_def handleSend_sync_on_def handleSend_guard_def try_block_def
      Let_def env_ok_def
      reply_hola_def handleSend_sync_def userMessage_of_def assistantMessage_of_def
      store_insert_def store_update_def trim_def isWhiteSpace_def ascii_def)

text \<open>
  C5, amended. For every persistence failure that the store reports as an error result
  (the awaited request resolves, with an error object): the component's state at the end,
  the requests issued (so no retry, and no turn removed or added) and the way the
  handler ends are exactly those of the run in which every persistence request is
  acknowledged.
\<close>

theorem C5_error_results_are_not_surfaced:
  assumes "user_insert env \<noteq> Rejects" "assistant_insert env \<noteq> Rejects"
    and "conv_update env \<noteq> Rejects"
  shows "fst (fst (handleSend language env (st, db))) =
           fst (fst (handleSend language
             (env\<lparr>user_insert := Ack, assistant_insert := Ack, conv_update := Ack\<rparr>) (st, db))) \<and>
         snd (handleSend language env (st, db)) =
           snd (handleSend language
             (env\<lparr>user_insert := Ack, assistant_insert := Ack, conv_update := Ack\<rparr>) (st, db))"
  using assms
  by (simp add: handleSend_def handleSend_closure_def handleSend_sync_on_def try_block_def Let_def
      split: option.splits fetch_outcome.splits json_outcome.splits)

theorem C5_error_results_are_not_surfaced_witness:
  "user_insert (env_ok\<lparr>user_insert := ErrorResult, assistant_insert := ErrorResult,
                       conv_update := ErrorResult\<rparr>) \<noteq> Rejects \<and>
   assistant_insert (env_ok\<lparr>user_insert := ErrorResult, assistant_insert := ErrorResult,
                       conv_update := ErrorResult\<rparr>) \<noteq> Rejects \<and>
   conv_update (env_ok\<lparr>user_insert := ErrorResult, assistant_insert := ErrorResult,
                       conv_update := ErrorResult\<rparr>) \<noteq> Rejects \<and>
   messages (fst (fst (handleSend spanish
       (env_ok\<lparr>user_insert := ErrorResult, assistant_insert := ErrorResult,
               conv_update := ErrorResult\<rparr>)
       (fst world_ready\<lparr>input := ascii ''Hola''\<rparr>, snd world_ready)))) =
     messages (fst (fst (handleSend spanish env_ok
       (fst world_ready\<lparr>input := ascii ''Hola''\<rparr>, snd world_ready)))) \<and>
   snd (handleSend spanish
       (env_ok\<lparr>user_insert := ErrorResult, assistant_insert := ErrorResult,
               conv_update := ErrorResult\<rparr>)
       (fst world_ready\<lparr>input := ascii ''Hola''\<rparr>, snd world_ready)) =
     snd (handleSend spanish env_ok
       (fst world_ready\<lparr>input := ascii ''Hola''\<rparr>, snd world_ready))"
proof -
  have h1: "user_insert (env_ok\<lparr>user_insert := ErrorResult, assistant_insert := ErrorResult,
                       conv_update := ErrorResult\<rparr>) \<noteq> Rejects"
    and h2: "assistant_insert (env_ok\<lparr>user_insert := ErrorResult,
                       assistant_insert := ErrorResult, conv_update := ErrorResult\<rparr>) \<noteq> Rejects"
    and h3: "conv_update (env_ok\<lparr>user_insert := ErrorResult, assistant_insert := ErrorResult,
                       conv_update := ErrorResult\<rparr>) \<noteq> Rejects"
    by simp_all
  have e: "env_ok\<lparr>user_insert := ErrorResult, assistant_insert := ErrorResult,
                  conv_update := ErrorResult, user_insert := Ack, assistant_insert := Ack,
                  conv_update := Ack\<rparr> = env_ok"
    by (simp add: env_ok_def)
  from C5_error_results_are_not_surfaced [OF h1 h2 h3, of spanish
      "fst world_ready\<lparr>input := ascii ''Hola''\<rparr>" "snd world_ready"]
  show ?thesis using h1 h2 h3 unfolding e by simp
qed







text \<open>
  C8. Synthetic turns are never sent to the store. \<open>initializeConversation\<close> issues no
  insert of a message, whatever the store answers, and on success it seeds the sequence
  with exactly one assistant turn with the identifier \<open>welcome\<close>: its text is the
  greeting of the table for the language's name (the default greeting for a name outside
  the table, and the inherited member for the name of a member of \<open>Object.prototype\<close>),
  and its translation is the English gloss \<open>Hello! I'm your NAME tutor. Let's practice
  together!\<close>. In every run of \<open>handleSend\<close> the inserts issued are, in order, exactly
  the rows of the real turns of the exchange (the user turn, then the reply turn if there
  is one); the turns already in the sequence, the greeting among them, get none, and the
  sequence at the end is the old one, then those real turns, then possibly the apology,
  which lies outside the inserted turns.
\<close>

theorem C8_synthetic_turns_are_never_inserted:
  "inserted_rows (fst (snd (initializeConversation user language out world))) = [] \<and>
   messages (fst (fst (initializeConversation (Some uid) language (Created cid0 ts) world))) =
     [\<lparr>msg_id = ascii ''welcome'', role = Assistant,
       content = getWelcomeMessage (name language),
       translation =
         JString (ascii ''Hello! I'' @ [0x0027] @ ascii ''m your '' @ name language @
                  ascii '' tutor. Let'' @ [0x0027] @ ascii ''s practice together!''),
       tip = JUndefined\<rparr>] \<and>
   getWelcomeMessage lname =
     (if lname = ascii ''Spanish'' then
        JString ([0x00A1] @ ascii ''Hola! Soy tu tutor de espa'' @ [0x00F1] @ ascii ''ol. ''
                 @ [0x00A1] @ ascii ''Vamos a practicar juntos!'')
      else if lname = ascii ''French'' then
        JString (ascii ''Bonjour! Je suis votre tuteur de fran'' @ [0x00E7]
                 @ ascii ''ais. Pratiquons ensemble!'')
      else if lname = ascii ''German'' then
        JString (ascii ''Hallo! Ich bin dein Deutsch-Tutor. Lass uns zusammen '' @ [0x00FC]
                 @ ascii ''ben!'')
      else if lname = ascii ''Hindi'' then
        JString [0x0928, 0x092E, 0x0938, 0x094D, 0x0924, 0x0947, 0x0021, 0x0020,
                 0x092E, 0x0948, 0x0902, 0x0020, 0x0906, 0x092A, 0x0915, 0x093E, 0x0020,
                 0x0939, 0x093F, 0x0902, 0x0926, 0x0940, 0x0020,
                 0x0936, 0x093F, 0x0915, 0x094D, 0x0937, 0x0915, 0x0020,
                 0x0939, 0x0942, 0x0902, 0x0964, 0x0020, 0x091A, 0x0932, 0x093F, 0x090F, 0x0020,
                 0x0938, 0x093E, 0x0925, 0x0020, 0x092E, 0x0947, 0x0902, 0x0020,
                 0x0905, 0x092D, 0x094D, 0x092F, 0x093E, 0x0938, 0x0020,
                 0x0915, 0x0930, 0x0924, 0x0947, 0x0020, 0x0939, 0x0948, 0x0902, 0x0021]
      else if lname = ascii ''Mandarin'' then
        JString [0x4F60, 0x597D, 0xFF01, 0x6211, 0x662F, 0x4F60, 0x7684, 0x4E2D, 0x6587, 0x8001,
                 0x5E08, 0x3002, 0x8BA9, 0x6211, 0x4EEC, 0x4E00, 0x8D77, 0x7EC3, 0x4E60, 0x5427,
                 0xFF01]
      else if lname = ascii ''Japanese'' then
        JString [0x3053, 0x3093, 0x306B, 0x3061, 0x306F, 0xFF01, 0x79C1, 0x306F, 0x3042, 0x306A,
                 0x305F, 0x306E, 0x65E5, 0x672C, 0x8A9E, 0x306E, 0x5148, 0x751F, 0x3067, 0x3059,
                 0x3002, 0x4E00, 0x7DD2, 0x306B, 0x7DF4, 0x7FD2, 0x3057, 0x307E, 0x3057, 0x3087,
                 0x3046, 0xFF01]
      else if lname = ascii ''Italian'' then
        JString (ascii ''Ciao! Sono il tuo tutor di italiano. Pratichiamo insieme!'')
      else if lname = ascii ''Portuguese'' then
        JString (ascii ''Ol'' @ [0x00E1] @ ascii ''! Sou seu tutor de portugu'' @ [0x00EA]
                 @ ascii ''s. Vamos praticar juntos!'')
      else if lname \<in> {ascii ''constructor'', ascii ''hasOwnProperty'', ascii ''isPrototypeOf'',
                        ascii ''propertyIsEnumerable'', ascii ''toLocaleString'',
                        ascii ''toString'', ascii ''valueOf'', ascii ''__proto__'',
                        ascii ''__defineGetter__'', ascii ''__defineSetter__'',
                        ascii ''__lookupGetter__'', ascii ''__lookupSetter__''} then
        JInherited lname
      else JString (ascii ''Hello! Let'' @ [0x0027] @ ascii ''s practice together!'')) \<and>
   inserted_rows (fst (snd (handleSend language env (st, db)))) =
     (case conversationId st of
        None \<Rightarrow> []
      | Some cid \<Rightarrow> map (row_of_turn cid) (exchange_turns env st)) \<and>
   (messages (fst (fst (handleSend language env (st, db)))) =
      messages st @ exchange_turns env st \<or>
    messages (fst (fst (handleSend language env (st, db)))) =
      messages st @ exchange_turns env st @ [apologyMessage (now_apology env)])"
proof (intro conjI)
  show "inserted_rows (fst (snd (initializeConversation user language out world))) = []"
    by (simp add: initializeConversation_def Let_def split: option.splits create_outcome.splits)
  show "messages (fst (fst (initializeConversation (Some uid) language (Created cid0 ts) world))) =
     [\<lparr>msg_id = ascii ''welcome'', role = Assistant,
       content = getWelcomeMessage (name language),
       translation =
         JString (ascii ''Hello! I'' @ [0x0027] @ ascii ''m your '' @ name language @
                  ascii '' tutor. Let'' @ [0x0027] @ ascii ''s practice together!''),
       tip = JUndefined\<rparr>]"
    by (simp add: initializeConversation_def Let_def welcomeMessage_def welcome_id_def
        welcome_gloss_def)
  show "getWelcomeMessage lname =
     (if lname = ascii ''Spanish'' then
        JString ([0x00A1] @ ascii ''Hola! Soy tu tutor de espa'' @ [0x00F1] @ ascii ''ol. ''
                 @ [0x00A1] @ ascii ''Vamos a practicar juntos!'')
      else if lname = ascii ''French'' then
        JString (ascii ''Bonjour! Je suis votre tuteur de fran'' @ [0x00E7]
                 @ ascii ''ais. Pratiquons ensemble!'')
      else if lname = ascii ''German'' then
        JString (ascii ''Hallo! Ich bin dein Deutsch-Tutor. Lass uns zusammen '' @ [0x00FC]
                 @ ascii ''ben!'')
      else if lname = ascii ''Hindi'' then
        JString [0x0928, 0x092E, 0x0938, 0x094D, 0x0924, 0x0947, 0x0021, 0x0020,
                 0x092E, 0x0948, 0x0902, 0x0020, 0x0906, 0x092A, 0x0915, 0x093E, 0x0020,
                 0x0939, 0x093F, 0x0902, 0x0926, 0x0940, 0x0020,
                 0x0936, 0x093F, 0x0915, 0x094D, 0x0937, 0x0915, 0x0020,
                 0x0939, 0x0942, 0x0902, 0x0964, 0x0020, 0x091A, 0x0932, 0x093F, 0x090F, 0x0020,
                 0x0938, 0x093E, 0x0925, 0x0020, 0x092E, 0x0947, 0x0902, 0x0020,
                 0x0905, 0x092D, 0x094D, 0x092F, 0x093E, 0x0938, 0x0020,
                 0x0915, 0x0930, 0x0924, 0x0947, 0x0020, 0x0939, 0x0948, 0x0902, 0x0021]
      else if lname = ascii ''Mandarin'' then
        JString [0x4F60, 0x597D, 0xFF01, 0x6211, 0x662F, 0x4F60, 0x7684, 0x4E2D, 0x6587, 0x8001,
                 0x5E08, 0x3002, 0x8BA9, 0x6211, 0x4EEC, 0x4E00, 0x8D77, 0x7EC3, 0x4E60, 0x5427,
                 0xFF01]
      else if lname = ascii ''Japanese'' then
        JString [0x3053, 0x3093, 0x306B, 0x3061, 0x306F, 0xFF01, 0x79C1, 0x306F, 0x3042, 0x306A,
                 0x305F, 0x306E, 0x65E5, 0x672C, 0x8A9E, 0x306E, 0x5148, 0x751F, 0x3067, 0x3059,
                 0x3002, 0x4E00, 0x7DD2, 0x306B, 0x7DF4, 0x7FD2, 0x3057, 0x307E, 0x3057, 0x3087,
                 0x3046, 0xFF01]
      else if lname = ascii ''Italian'' then
        JString (ascii ''Ciao! Sono il tuo tutor di italiano. Pratichiamo insieme!'')
      else if lname = ascii ''Portuguese'' then
        JString (ascii ''Ol'' @ [0x00E1] @ ascii ''! Sou seu tutor de portugu'' @ [0x00EA]
                 @ ascii ''s. Vamos praticar juntos!'')
      else if lname \<in> {ascii ''constructor'', ascii ''hasOwnProperty'', ascii ''isPrototypeOf'',
                        ascii ''propertyIsEnumerable'', ascii ''toLocaleString'',
                        ascii ''toString'', ascii ''valueOf'', ascii ''__proto__'',
                        ascii ''__defineGetter__'', ascii ''__defineSetter__'',
                        ascii ''__lookupGetter__'', ascii ''__lookupSetter__''} then
        JInherited lname
      else JString (ascii ''Hello! Let'' @ [0x0027] @ ascii ''s practice together!''))"
    by (rule getWelcomeMessage_cases)
  show "inserted_rows (fst (snd (handleSend language env (st, db)))) =
     (case conversationId st of
        None \<Rightarrow> []
      | Some cid \<Rightarrow> map (row_of_turn cid) (exchange_turns env st))"
    using handleSend_inserts_real_turns by blast
  show "messages (fst (fst (handleSend language env (st, db)))) =
      messages st @ exchange_turns env st \<or>
    messages (fst (fst (handleSend language env (st, db)))) =
      messages st @ exchange_turns env st @ [apologyMessage (now_apology env)]"
    using handleSend_inserts_real_turns by blast
qed

theorem C8_synthetic_turns_are_never_inserted_witness:
  "inserted_rows (fst (snd (initializeConversation (Some (ascii ''user-1'')) spanish
      (Created (ascii ''conv-1'') (ascii ''2025-12-04T15:00:00.000Z''))
      (initialState, emptyStore)))) = [] \<and>
   messages (fst (fst (initializeConversation (Some (ascii ''user-1'')) spanish
      (Created (ascii ''conv-1'') (ascii ''2025-12-04T15:00:00.000Z''))
      (initialState, emptyStore)))) =
     [\<lparr>msg_id = ascii ''welcome'', role = Assistant,
       content =
         JString ([0x00A1] @ ascii ''Hola! Soy tu tutor de espa'' @ [0x00F1] @ ascii ''ol. ''
                  @ [0x00A1] @ ascii ''Vamos a practicar juntos!''),
       translation =
         JString (ascii ''Hello! I'' @ [0x0027] @ ascii ''m your Spanish tutor. Let'' @ [0x0027]
                  @ ascii ''s practice together!''),
       tip = JUndefined\<rparr>] \<and>
   inserted_rows (fst (snd (handleSend spanish env_offline
      (fst world_ready\<lparr>input := ascii ''Hola''\<rparr>, snd world_ready)))) =
     [\<lparr>conversation_id = ascii ''conv-1'', row_role = User,
       row_content = JString (ascii ''Hola''), row_translation = JUndefined\<rparr>] \<and>
   (messages (fst (fst (handleSend spanish env_offline
      (fst world_ready\<lparr>input := ascii ''Hola''\<rparr>, snd world_ready)))) =
     [welcomeMessage spanish,
      \<lparr>msg_id = toString 1764860400000, role = User, content = JString (ascii ''Hola''),
       translation = JUndefined, tip = JUndefined\<rparr>] \<or>
    messages (fst (fst (handleSend spanish env_offline
      (fst world_ready\<lparr>input := ascii ''Hola''\<rparr>, snd world_ready)))) =
     [welcomeMessage spanish,
      \<lparr>msg_id = toString 1764860400000, role = User, content = JString (ascii ''Hola''),
       translation = JUndefined, tip = JUndefined\<rparr>,
      apologyMessage 1764860402000])"
proof -
  have g: "\<not> handleSend_guard (fst world_ready\<lparr>input := ascii ''Hola''\<rparr>)"
    by (simp add: handleSend_guard_def world_ready_eq trim_def isWhiteSpace_def ascii_def)
  have e: "exchange_turns env_offline (fst world_ready\<lparr>input := ascii ''Hola''\<rparr>) =
      [\<lparr>msg_id = toString 1764860400000, role = User, content = JString (ascii ''Hola''),
        translation = JUndefined, tip = JUndefined\<rparr>]"
    by (simp add: exchange_turns_def g env_offline_def env_ok_def userMessage_of_def)
       (simp add: trim_def isWhiteSpace_def ascii_def)
  have c: "conversationId (fst world_ready\<lparr>input := ascii ''Hola''\<rparr>) = Some (ascii ''conv-1'')"
    and m: "messages (fst world_ready\<lparr>input := ascii ''Hola''\<rparr>) = [welcomeMessage spanish]"
    and n: "now_apology env_offline = 1764860402000"
    by (simp_all add: world_ready_eq env_offline_def env_ok_def)
  have nm: "name spanish = ascii ''Spanish''"
    by (simp add: spanish_def)
  have gl: "ascii ''Hello! I'' @ [0x0027] @ ascii ''m your '' @ ascii ''Spanish'' @
              ascii '' tutor. Let'' @ [0x0027] @ ascii ''s practice together!'' =
            ascii ''Hello! I'' @ [0x0027] @ ascii ''m your Spanish tutor. Let'' @ [0x0027]
              @ ascii ''s practice together!''"
    by (simp add: ascii_def)
  note t = C8_synthetic_turns_are_never_inserted
    [where user = "Some (ascii ''user-1'')" and language = spanish
       and out = "Created (ascii ''conv-1'') (ascii ''2025-12-04T15:00:00.000Z'')"
       and world = "(initialState, emptyStore)" and uid = "ascii ''user-1''"
       and ?cid0.0 = "ascii ''conv-1''" and ts = "ascii ''2025-12-04T15:00:00.000Z''"
       and lname = "ascii ''Spanish''"
       and env = env_offline and st = "fst world_ready\<lparr>input := ascii ''Hola''\<rparr>"
       and db = "snd world_ready"]
  note t1 = t [THEN conjunct1]
  note t2 = t [THEN conjunct2, THEN conjunct1]
  note t3 = t [THEN conjunct2, THEN conjunct2, THEN conjunct1]
  note t4 = t [THEN conjunct2, THEN conjunct2, THEN conjunct2, THEN conjunct1]
  note t5 = t [THEN conjunct2, THEN conjunct2, THEN conjunct2, THEN conjunct2]
  from t3 have gw: "getWelcomeMessage (ascii ''Spanish'') =
      JString ([0x00A1] @ ascii ''Hola! Soy tu tutor de espa'' @ [0x00F1] @ ascii ''ol. ''
               @ [0x00A1] @ ascii ''Vamos a practicar juntos!'')"
    by (simp only: refl if_True)
  from t2 have w2: "messages (fst (fst (initializeConversation (Some (ascii ''user-1'')) spanish
      (Created (ascii ''conv-1'') (ascii ''2025-12-04T15:00:00.000Z''))
      (initialState, emptyStore)))) =
     [\<lparr>msg_id = ascii ''welcome'', role = Assistant,
       content =
         JString ([0x00A1] @ ascii ''Hola! Soy tu tutor de espa'' @ [0x00F1] @ ascii ''ol. ''
                  @ [0x00A1] @ ascii ''Vamos a practicar juntos!''),
       translation =
         JString (ascii ''Hello! I'' @ [0x0027] @ ascii ''m your Spanish tutor. Let'' @ [0x0027]
                  @ ascii ''s practice together!''),
       tip = JUndefined\<rparr>]"
    by (simp only: nm gw gl)
  from t4 have w4: "inserted_rows (fst (snd (handleSend spanish env_offline
      (fst world_ready\<lparr>input := ascii ''Hola''\<rparr>, snd world_ready)))) =
     [\<lparr>conversation_id = ascii ''conv-1'', row_role = User,
       row_content = JString (ascii ''Hola''), row_translation = JUndefined\<rparr>]"
    unfolding e c by (simp add: row_of_turn_def)
  from t5 have w5: "messages (fst (fst (handleSend spanish env_offline
      (fst world_ready\<lparr>input := ascii ''Hola''\<rparr>, snd world_ready)))) =
     [welcomeMessage spanish,
      \<lparr>msg_id = toString 1764860400000, role = User, content = JString (ascii ''Hola''),
       translation = JUndefined, tip = JUndefined\<rparr>] \<or>
    messages (fst (fst (handleSend spanish env_offline
      (fst world_ready\<lparr>input := ascii ''Hola''\<rparr>, snd world_ready)))) =
     [welcomeMessage spanish,
      \<lparr>msg_id = toString 1764860400000, role = User, content = JString (ascii ''Hola''),
       translation = JUndefined, tip = JUndefined\<rparr>,
      apologyMessage 1764860402000]"
    unfolding e m n by simp
  from t1 w2 w4 w5 show ?thesis by (intro conjI)
qed

text \<open>
  C9. Claimed: for every reply whose raw text does not parse as the structured object
  \<open>{response, translation, tip}\<close>, the handler answers with the fallback body built from
  the raw text. The handler falls back only when \<open>JSON.parse\<close> throws: a raw text that is
  JSON of another shape is returned as parsed. For the raw text \<open>null\<close> the body is
  \<open>null\<close>, not the fallback.
\<close>

theorem C9_valid_json_of_another_shape_counterexample:
  "\<not> parses_as_structured_reply JSON_parse_sample (ascii ''null'') \<and>
   handler JSON_parse_sample (edge_env (ascii ''null'')) =
     \<lparr>status = 200, body_json = Some JNull\<rparr> \<and>
   handler JSON_parse_sample (edge_env (ascii ''null'')) \<noteq>
     \<lparr>status = 200, body_json = Some (fallbackResponse (JString (ascii ''null'')))\<rparr>"
  by (simp add: parses_as_structured_reply_def JSON_parse_sample_def handler_def
      handler_try_def edge_env_def choice_content_completion_with parsedResponse_of_def
      fallbackResponse_def)
     (simp add: ascii_def)

text \<open>
  C9, amended. In a run that reaches the parsing step: for every reply whose raw text is
  not JSON (\<open>JSON.parse\<close> throws on it, as on the plain text \<open>Hola amigo\<close>) the handler
  answers with status 200 and the body \<open>{response: raw text, translation: "Translation
  not available", tip: null}\<close>, and the component builds from that body an assistant
  turn with the raw text as its text, so the exchange does not fail; for every reply
  whose raw text is JSON, of whatever shape, the handler answers with status 200 and the
  parsed value as the body, without the fallback.
\<close>

theorem C9_fallback_exactly_when_reply_is_not_json:
  assumes "req_method env \<noteq> ascii ''OPTIONS''" "\<not> req_json_throws env"
    and "OPENAI_API_KEY env = Some key" "key \<noteq> []" "\<not> messages_spread_throws env"
    and "openai env = OpenAIOk (JsonValue data)"
    and "choice_content data = Some (JString raw)"
  shows "(JSON_parse (JString raw) = None \<longrightarrow>
            handler JSON_parse env =
              \<lparr>status = 200,
               body_json = Some (JObject [(ascii ''response'', JString raw),
                                          (ascii ''translation'',
                                           JString (ascii ''Translation not available'')),
                                          (ascii ''tip'', JNull)])\<rparr>) \<and>
         (JSON_parse (JString raw) = Some v \<longrightarrow>
            handler JSON_parse env = \<lparr>status = 200, body_json = Some v\<rparr>) \<and>
         assistantMessage_of now
           (JObject [(ascii ''response'', JString raw),
                     (ascii ''translation'', JString (ascii ''Translation not available'')),
                     (ascii ''tip'', JNull)]) =
           Some \<lparr>msg_id = toString now, role = Assistant, content = JString raw,
                 translation = JString (ascii ''Translation not available''), tip = JNull\<rparr>"
proof (intro conjI)
  from assms show "JSON_parse (JString raw) = None \<longrightarrow>
            handler JSON_parse env =
              \<lparr>status = 200,
               body_json = Some (JObject [(ascii ''response'', JString raw),
                                          (ascii ''translation'',
                                           JString (ascii ''Translation not available'')),
                                          (ascii ''tip'', JNull)])\<rparr>"
    by (simp add: handler_def handler_try_def parsedResponse_of_def fallbackResponse_def)
  from assms show "JSON_parse (JString raw) = Some v \<longrightarrow>
            handler JSON_parse env = \<lparr>status = 200, body_json = Some v\<rparr>"
    by (simp add: handler_def handler_try_def parsedResponse_of_def)
  show "assistantMessage_of now
           (JObject [(ascii ''response'', JString raw),
                     (ascii ''translation'', JString (ascii ''Translation not available'')),
                     (ascii ''tip'', JNull)]) =
           Some \<lparr>msg_id = toString now, role = Assistant, content = JString raw,
                 translation = JString (ascii ''Translation not available''), tip = JNull\<rparr>"
    by (simp add: assistantMessage_of_def) (simp add: ascii_def)
qed

theorem C9_fallback_exactly_when_reply_is_not_json_witness:
  "req_method (edge_env (ascii ''Hola amigo'')) \<noteq> ascii ''OPTIONS'' \<and>
   \<not> req_json_throws (edge_env (ascii ''Hola amigo'')) \<and>
   OPENAI_API_KEY (edge_env (ascii ''Hola amigo'')) = Some (ascii ''sk-sample'') \<and>
   ascii ''sk-sample'' \<noteq> [] \<and>
   \<not> messages_spread_throws (edge_env (ascii ''Hola amigo'')) \<and>
   openai (edge_env (ascii ''Hola amigo'')) =
     OpenAIOk (JsonValue (completion_with (ascii ''Hola amigo''))) \<and>
   choice_content (completion_with (ascii ''Hola amigo'')) = Some (JString (ascii ''Hola amigo'')) \<and>
   JSON_parse_sample (JString (ascii ''Hola amigo'')) = None \<and>
   handler JSON_parse_sample (edge_env (ascii ''Hola amigo'')) =
     \<lparr>status = 200,
      body_json = Some (JObject [(ascii ''response'', JString (ascii ''Hola amigo'')),
                                 (ascii ''translation'',
                                  JString (ascii ''Translation not available'')),
                                 (ascii ''tip'', JNull)])\<rparr> \<and>
   req_method (edge_env (ascii ''null'')) \<noteq> ascii ''OPTIONS'' \<and>
   \<not> req_json_throws (edge_env (ascii ''null'')) \<and>
   OPENAI_API_KEY (edge_env (ascii ''null'')) = Some (ascii ''sk-sample'') \<and>
   \<not> messages_spread_throws (edge_env (ascii ''null'')) \<and>
   openai (edge_env (ascii ''null'')) = OpenAIOk (JsonValue (completion_with (ascii ''null''))) \<and>
   choice_content (completion_with (ascii ''null'')) = Some (JString (ascii ''null'')) \<and>
   JSON_parse_sample (JString (ascii ''null'')) = Some JNull \<and>
   handler JSON_parse_sample (edge_env (ascii ''null'')) = \<lparr>status = 200, body_json = Some JNull\<rparr>"
proof -
  have h1: "req_method (edge_env (ascii ''Hola amigo'')) \<noteq> ascii ''OPTIONS''"
    and h2: "\<not> req_json_throws (edge_env (ascii ''Hola amigo''))"
    and h3: "OPENAI_API_KEY (edge_env (ascii ''Hola amigo'')) = Some (ascii ''sk-sample'')"
    and h4: "ascii ''sk-sample'' \<noteq> []"
    and h4': "\<not> messages_spread_throws (edge_env (ascii ''Hola amigo''))"
    and h5: "openai (edge_env (ascii ''Hola amigo'')) =
               OpenAIOk (JsonValue (completion_with (ascii ''Hola amigo'')))"
    and h7: "JSON_parse_sample (JString (ascii ''Hola amigo'')) = None"
    by (simp_all add: edge_env_def JSON_parse_sample_def ascii_def)
  note h6 = choice_content_completion_with [of "ascii ''Hola amigo''"]
  have k1: "req_method (edge_env (ascii ''null'')) \<noteq> ascii ''OPTIONS''"
    and k2: "\<not> req_json_throws (edge_env (ascii ''null''))"
    and k3: "OPENAI_API_KEY (edge_env (ascii ''null'')) = Some (ascii ''sk-sample'')"
    and k4': "\<not> messages_spread_throws (edge_env (ascii ''null''))"
    and k5: "openai (edge_env (ascii ''null'')) =
               OpenAIOk (JsonValue (completion_with (ascii ''null'')))"
    and k7: "JSON_parse_sample (JString (ascii ''null'')) = Some JNull"
    by (simp_all add: edge_env_def JSON_parse_sample_def ascii_def)
  note k6 = choice_content_completion_with [of "ascii ''null''"]
  from C9_fallback_exactly_when_reply_is_not_json
      [where JSON_parse = JSON_parse_sample and now = 0 and v = JNull,
       OF h1 h2 h3 h4 h4' h5 h6] h7
  have a: "handler JSON_parse_sample (edge_env (ascii ''Hola amigo'')) =
     \<lparr>status = 200,
      body_json = Some (JObject [(ascii ''response'', JString (ascii ''Hola amigo'')),
                                 (ascii ''translation'',
                                  JString (ascii ''Translation not available'')),
                                 (ascii ''tip'', JNull)])\<rparr>"
    by blast
  from C9_fallback_exactly_when_reply_is_not_json
      [where JSON_parse = JSON_parse_sample and now = 0 and v = JNull,
       OF k1 k2 k3 h4 k4' k5 k6] k7
  have b: "handler JSON_parse_sample (edge_env (ascii ''null'')) =
     \<lparr>status = 200, body_json = Some JNull\<rparr>"
    by blast
  from h1 h2 h3 h4 h4' h5 h6 h7 a k1 k2 k3 k4' k5 k6 k7 b show ?thesis
    by (intro conjI)
qed

end
